theory Spec2Isabelle
  imports Main "HOL-Library.AList"
begin

section \<open>Python values, strings and exceptions\<close>

text \<open>
  A Python \<open>str\<close> holding user text is a sequence of Unicode code points, so it is a
  list of naturals (\<open>len\<close> counts code points, and Persian letters do not fit a byte).
  The string \<open>str(n)\<close> of an integer and the names of attributes and dictionary keys are
  ASCII and are kept as \<open>string\<close>; \<open>asc\<close> below gives the code points of such a string.
\<close>

type_synonym pystr = "nat list"

datatype pyval = PyNone | PyBool bool | PyInt int | PyStr pystr | PyList "int list"

text \<open>\<open>errs\<close> is the \<open>errors\<close> dictionary of the handlers: insertion ordered, one entry per key.\<close>

type_synonym errs = "(string \<times> pystr) list"

text \<open>
  The \<open>detail\<close> of an \<open>HTTPException\<close>: a message, or the dictionary
  \<open>{"detail": "Validation error", "errors": errors}\<close>.
\<close>

datatype detail = Msg pystr | Validation pystr errs

datatype error =
    HTTPException nat detail
  | TypeError
  | IndexError
  | ValueError
  | AttributeError
  | UnmappedInstanceError
  | IntegrityError
  | OutsideModel

text \<open>Python's truth value of what a validator returns (\<open>not f(x)\<close> in the handlers).\<close>

fun truthy :: "pyval \<Rightarrow> bool" where
  "truthy PyNone = False"
| "truthy (PyBool b) = b"
| "truthy (PyInt i) = (i \<noteq> 0)"
| "truthy (PyStr s) = (s \<noteq> [])"
| "truthy (PyList l) = (l \<noteq> [])"

subsection \<open>\<open>str(n)\<close> for an integer\<close>

definition digit_char :: "nat \<Rightarrow> char" where
  "digit_char d = ''0123456789'' ! d"

fun digits_of :: "nat \<Rightarrow> string" where
  "digits_of n = (if n < 10 then [digit_char n] else digits_of (n div 10) @ [digit_char (n mod 10)])"

declare digits_of.simps [simp del]

definition str_int :: "int \<Rightarrow> string" where
  "str_int n = (if n < 0 then CHR ''-'' # digits_of (nat (- n)) else digits_of (nat n))"

subsection \<open>Indexing and \<open>int(c)\<close>\<close>

definition getitem :: "string \<Rightarrow> nat \<Rightarrow> error + char" where
  "getitem s i = (if i < length s then Inr (s ! i) else Inl IndexError)"

definition int_of_char :: "char \<Rightarrow> error + int" where
  "int_of_char c =
     (if c = CHR ''0'' then Inr 0 else if c = CHR ''1'' then Inr 1
      else if c = CHR ''2'' then Inr 2 else if c = CHR ''3'' then Inr 3
      else if c = CHR ''4'' then Inr 4 else if c = CHR ''5'' then Inr 5
      else if c = CHR ''6'' then Inr 6 else if c = CHR ''7'' then Inr 7
      else if c = CHR ''8'' then Inr 8 else if c = CHR ''9'' then Inr 9
      else Inl ValueError)"

section \<open>dtool/validators.py\<close>

subsection \<open>\<open>validate_national_id\<close>\<close>

definition coefficients :: "int list" where
  "coefficients = [10, 9, 8, 7, 6, 5, 4, 3, 2]"

text \<open>
  \<open>sum(int(n_id[i]) * coefficients[i] for i in range(9))\<close>: the terms are evaluated in
  order, and the first \<open>n_id[i]\<close> out of range or \<open>int\<close> of a non-digit raises.
\<close>

fun weighted_sum :: "string \<Rightarrow> nat \<Rightarrow> int list \<Rightarrow> error + int" where
  "weighted_sum s i [] = Inr 0"
| "weighted_sum s i (w # ws) =
     (case getitem s i of
        Inl e \<Rightarrow> Inl e
      | Inr c \<Rightarrow>
          (case int_of_char c of
             Inl e \<Rightarrow> Inl e
           | Inr d \<Rightarrow>
               (case weighted_sum s (Suc i) ws of
                  Inl e \<Rightarrow> Inl e
                | Inr t \<Rightarrow> Inr (d * w + t))))"

text \<open>
  The source pads with \<open>"0" * (10 - len(str(n)) + n)\<close>: the integer \<open>n\<close> is added to
  the repetition count inside the parentheses, and \<open>str * k\<close> is empty for \<open>k \<le> 0\<close>.
\<close>

definition validate_national_id :: "int \<Rightarrow> error + bool" where
  "validate_national_id n =
     (let l = length (str_int n) in
      if l < 8 \<or> l > 10 then Inr False
      else
        let n_id = (if l < 10 then replicate (nat (10 - int l + n)) CHR ''0'' else str_int n) in
        case weighted_sum n_id 0 coefficients of
          Inl e \<Rightarrow> Inl e
        | Inr tot \<Rightarrow>
            let reminder = tot mod 11 in
            (case getitem n_id 9 of
               Inl e \<Rightarrow> Inl e
             | Inr c \<Rightarrow>
                 (case int_of_char c of
                    Inl e \<Rightarrow> Inl e
                  | Inr d \<Rightarrow>
                      if reminder < 2 then Inr (d = reminder) else Inr (d = 11 - reminder))))"

text \<open>
  The rule as the specification words it, for comparison with the source: the input is
  left-padded with zeros to ten digits, and the last digit must equal the expected digit
  computed from the first nine.
\<close>

definition spec_pad10 :: "int \<Rightarrow> string" where
  "spec_pad10 n = replicate (10 - length (str_int n)) CHR ''0'' @ str_int n"

definition digit_val :: "char \<Rightarrow> int" where
  "digit_val c = (case int_of_char c of Inl e \<Rightarrow> 0 | Inr d \<Rightarrow> d)"

definition spec_checksum_ok :: "string \<Rightarrow> bool" where
  "spec_checksum_ok s =
     (let r = sum_list (map2 (\<lambda>c w. digit_val c * w) (take 9 s) coefficients) mod 11 in
      digit_val (s ! 9) = (if r < 2 then r else 11 - r))"

definition spec_validate_national_id :: "int \<Rightarrow> bool" where
  "spec_validate_national_id n =
     (let l = length (str_int n) in
      if l < 8 \<or> l > 10 then False else spec_checksum_ok (spec_pad10 n))"


section \<open>The regular expressions of the handlers\<close>

text \<open>
  The patterns given to \<open>re.match\<close> and \<open>re.findall\<close> are translated constructor by
  constructor. \<open>rx_ends r s i\<close> lists, in the order the backtracking matcher tries them,
  the positions where a match of \<open>r\<close> that starts at position \<open>i\<close> of \<open>s\<close> can end;
  \<open>re.match\<close> succeeds when there is one from position 0.
\<close>

datatype rx =
    Sym "nat \<Rightarrow> bool"
  | Lit pystr
  | Cat rx rx
  | Alt rx rx
  | Opt rx
  | PlusSym "nat \<Rightarrow> bool"
  | Bol
  | Eol

fun rx_ends :: "rx \<Rightarrow> pystr \<Rightarrow> nat \<Rightarrow> nat list" where
  "rx_ends (Sym p) s i = (if i < length s \<and> p (s ! i) then [Suc i] else [])"
| "rx_ends (Lit w) s i = (if take (length w) (drop i s) = w then [i + length w] else [])"
| "rx_ends (Cat a b) s i = concat (map (rx_ends b s) (rx_ends a s i))"
| "rx_ends (Alt a b) s i = rx_ends a s i @ rx_ends b s i"
| "rx_ends (Opt a) s i = rx_ends a s i @ [i]"
| "rx_ends (PlusSym p) s i =
     map (\<lambda>k. i + k) (rev [1..<Suc (length (takeWhile p (drop i s)))])"
| "rx_ends Bol s i = (if i = 0 then [i] else [])"
| "rx_ends Eol s i = (if i = length s \<or> (Suc i = length s \<and> s ! i = 10) then [i] else [])"

text \<open>\<open>r{n}\<close>: \<open>n\<close> copies of \<open>r\<close> in sequence.\<close>

primrec times :: "nat \<Rightarrow> rx \<Rightarrow> rx" where
  "times 0 a = Lit []"
| "times (Suc n) a = Cat a (times n a)"

definition re_match :: "rx \<Rightarrow> pystr \<Rightarrow> bool" where
  "re_match r s = (rx_ends r s 0 \<noteq> [])"

text \<open>Code points of an ASCII string (\<open>str(n)\<close>, literals of the patterns).\<close>

definition asc :: "string \<Rightarrow> pystr" where
  "asc s = map of_char s"

definition in_range :: "nat \<Rightarrow> nat \<Rightarrow> nat \<Rightarrow> bool" where
  "in_range lo hi c = (lo \<le> c \<and> c \<le> hi)"

text \<open>
  \<open>\s\<close> in a \<open>str\<close> pattern: the characters for which \<open>str.isspace\<close> holds.
\<close>

definition is_space :: "nat \<Rightarrow> bool" where
  "is_space c =
     (in_range 9 13 c \<or> in_range 28 32 c \<or> c = 133 \<or> c = 160 \<or> c = 5760
      \<or> in_range 8192 8202 c \<or> c = 8232 \<or> c = 8233 \<or> c = 8239 \<or> c = 8287 \<or> c = 12288)"

definition ascii_digit :: "nat \<Rightarrow> bool" where
  "ascii_digit c = in_range 48 57 c"

definition not_newline :: "nat \<Rightarrow> bool" where
  "not_newline c = (c \<noteq> 10)"

section \<open>dtool/validators.py: the other validators\<close>

text \<open>
  What the validators read from outside the repository is a parameter: the three JSON
  files (\<open>iran_provinces.json\<close>, \<open>province.json\<close>, \<open>engineering_fields.json\<close>, each
  iterated as a sequence of names), whether \<open>jdatetime.datetime.strptime(d, '%Y/%m/%d')\<close>
  returns or raises \<open>ValueError\<close>, and the Unicode tables behind \<open>\d\<close> and \<open>\w\<close>.
\<close>

record env =
  iran_provinces :: "pystr list"
  province :: "pystr list"
  engineering_fields :: "pystr list"
  strptime_ok :: "pystr \<Rightarrow> bool"
  re_digit :: "nat \<Rightarrow> bool"
  re_word :: "nat \<Rightarrow> bool"

definition check_shamsi :: "env \<Rightarrow> pystr \<Rightarrow> bool" where
  "check_shamsi ev d_str = (if strptime_ok ev d_str then True else False)"

text \<open>The pattern \<^verbatim>\<open>^[\u0600-\u06FF\s1-9]+$\<close> given to \<open>re.match\<close>.\<close>

definition farsi_class :: "nat \<Rightarrow> bool" where
  "farsi_class c = (in_range 1536 1791 c \<or> is_space c \<or> in_range 49 57 c)"

definition farsi_pattern :: rx where
  "farsi_pattern = Cat Bol (Cat (PlusSym farsi_class) Eol)"

definition check_farsi_name :: "pystr \<Rightarrow> bool" where
  "check_farsi_name n = (if re_match farsi_pattern n then True else False)"

text \<open>\<open>a in b\<close> for two strings: \<open>a\<close> occurs in \<open>b\<close> as a contiguous part.\<close>

fun py_in :: "pystr \<Rightarrow> pystr \<Rightarrow> bool" where
  "py_in a [] = (a = [])"
| "py_in a (y # ys) = (take (length a) (y # ys) = a \<or> py_in a ys)"

text \<open>
  The four membership validators return \<open>True\<close> from inside the loop and fall off the
  end of the function otherwise, which in Python returns \<open>None\<close>.
\<close>

fun name_in_value :: "pystr list \<Rightarrow> pystr \<Rightarrow> pyval" where
  "name_in_value [] n = PyNone"
| "name_in_value (char # ob) n = (if py_in char n then PyBool True else name_in_value ob n)"

fun value_in_name :: "pystr list \<Rightarrow> pystr \<Rightarrow> pyval" where
  "value_in_name [] n = PyNone"
| "value_in_name (lst # rest) n = (if py_in n lst then PyBool True else value_in_name rest n)"

definition is_center :: "env \<Rightarrow> pystr \<Rightarrow> pyval" where
  "is_center ev n = name_in_value (iran_provinces ev) n"

definition is_cities :: "env \<Rightarrow> pystr \<Rightarrow> pyval" where
  "is_cities ev n = name_in_value (province ev) n"

definition lst_college :: "pystr list" where
  "lst_college =
     [[1601, 1606, 1740, 32, 1608, 32, 1605, 1607, 1606, 1583, 1587, 1740],
      [1593, 1604, 1608, 1605, 32, 1662, 1575, 1740, 1607],
      [1593, 1604, 1608, 1605, 32, 1575, 1606, 1587, 1575, 1606, 1740],
      [1583, 1575, 1605, 1662, 1586, 1588, 1705, 1740],
      [1575, 1602, 1578, 1589, 1575, 1583],
      [1705, 1588, 1575, 1608, 1585, 1586, 1740],
      [1605, 1606, 1575, 1576, 1593, 32, 1591, 1576, 1740, 1593, 1740]]"

definition college_trust :: "pystr \<Rightarrow> pyval" where
  "college_trust n = value_in_name lst_college n"

definition trust :: "env \<Rightarrow> pystr \<Rightarrow> pyval" where
  "trust ev n = value_in_name (engineering_fields ev) n"

text \<open>The 32 letters of the Persian alphabet, for the statement about Persian names.\<close>

definition persian_letters :: "nat list" where
  "persian_letters =
     [1575, 1576, 1662, 1578, 1579, 1580, 1670, 1581, 1582, 1583, 1584, 1585, 1586, 1688,
      1587, 1588, 1589, 1590, 1591, 1592, 1593, 1594, 1601, 1602, 1705, 1711, 1604, 1605,
      1606, 1608, 1607, 1740]"

definition latin_letter :: "nat \<Rightarrow> bool" where
  "latin_letter c = (in_range 65 90 c \<or> in_range 97 122 c)"

section \<open>dtool/schemas.py and dtool/model.py\<close>

text \<open>The request payloads of the create endpoints (the Pydantic models).\<close>

record Student =
  STID :: int
  FName :: pystr
  LName :: pystr
  Father :: pystr
  Birth :: pystr
  IDS :: pystr
  BornCity :: pystr
  Address :: pystr
  PostalCode :: int
  CPhone :: pystr
  HPhone :: pystr
  Department :: pystr
  Major :: pystr
  Married :: pystr
  ID :: int
  SCourseIDs :: "int list option"
  LIDs :: "int list option"

record Lesson =
  CID :: int
  CName :: pystr
  LDepartment :: pystr
  Credit :: pystr

record Master =
  LID :: int
  MFName :: pystr
  MLName :: pystr
  MID :: int
  MDepartment :: pystr
  MMajor :: pystr
  MBirth :: pystr
  MBornCity :: pystr
  MAddress :: pystr
  MPostalCode :: pystr
  MCPhone :: pystr
  MHPhone :: pystr
  LCourseIDs :: "int list option"

text \<open>
  A stored row is an ORM object: its attributes by name. The store holds the three
  tables, each keyed by its primary key. (Column widths and the other limits the database
  server enforces are outside the model.)
\<close>

type_synonym row = "string \<Rightarrow> pyval option"

record db =
  students :: "int \<Rightarrow> row option"
  masters :: "int \<Rightarrow> row option"
  lessons :: "int \<Rightarrow> row option"

definition empty_db :: db where
  "empty_db = \<lparr>students = Map.empty, masters = Map.empty, lessons = Map.empty\<rparr>"

definition opt_list :: "int list option \<Rightarrow> pyval" where
  "opt_list l = (case l of None \<Rightarrow> PyNone | Some xs \<Rightarrow> PyList xs)"

text \<open>\<open>model_dump()\<close>: the payload as a dictionary, in the order of the fields.\<close>

definition student_dump :: "Student \<Rightarrow> (string \<times> pyval) list" where
  "student_dump u =
     [(''STID'', PyInt (STID u)), (''FName'', PyStr (FName u)), (''LName'', PyStr (LName u)),
      (''Father'', PyStr (Father u)), (''Birth'', PyStr (Birth u)), (''IDS'', PyStr (IDS u)),
      (''BornCity'', PyStr (BornCity u)), (''Address'', PyStr (Address u)),
      (''PostalCode'', PyInt (PostalCode u)), (''CPhone'', PyStr (CPhone u)),
      (''HPhone'', PyStr (HPhone u)), (''Department'', PyStr (Department u)),
      (''Major'', PyStr (Major u)), (''Married'', PyStr (Married u)), (''ID'', PyInt (ID u)),
      (''SCourseIDs'', opt_list (SCourseIDs u)), (''LIDs'', opt_list (LIDs u))]"

definition lesson_dump :: "Lesson \<Rightarrow> (string \<times> pyval) list" where
  "lesson_dump l =
     [(''CID'', PyInt (CID l)), (''CName'', PyStr (CName l)),
      (''Department'', PyStr (LDepartment l)), (''Credit'', PyStr (Credit l))]"

definition master_dump :: "Master \<Rightarrow> (string \<times> pyval) list" where
  "master_dump m =
     [(''LID'', PyInt (LID m)), (''FName'', PyStr (MFName m)), (''LName'', PyStr (MLName m)),
      (''ID'', PyInt (MID m)), (''Department'', PyStr (MDepartment m)),
      (''Major'', PyStr (MMajor m)), (''Birth'', PyStr (MBirth m)),
      (''BornCity'', PyStr (MBornCity m)), (''Address'', PyStr (MAddress m)),
      (''PostalCode'', PyStr (MPostalCode m)), (''CPhone'', PyStr (MCPhone m)),
      (''HPhone'', PyStr (MHPhone m)), (''LCourseIDs'', opt_list (LCourseIDs m))]"

section \<open>dtool/crud.py\<close>

text \<open>
  \<open>db.add\<close> and \<open>db.commit\<close> of a new object insert its row. Every column is declared
  \<open>nullable=False\<close> and the key column \<open>primary_key=True\<close>, so the insert fails with
  \<open>IntegrityError\<close> on a \<open>None\<close> attribute or an existing key.
\<close>

definition has_none :: "(string \<times> pyval) list \<Rightarrow> bool" where
  "has_none kvs = list_ex (\<lambda>kv. snd kv = PyNone) kvs"

definition create_student :: "db \<Rightarrow> Student \<Rightarrow> error + (db \<times> row)" where
  "create_student d student =
     (let db_student = map_of (student_dump student) in
      case students d (STID student) of
        Some old \<Rightarrow> Inl IntegrityError
      | None \<Rightarrow>
          if has_none (student_dump student) then Inl IntegrityError
          else Inr (d\<lparr>students := (students d)(STID student \<mapsto> db_student)\<rparr>, db_student))"

definition create_master :: "db \<Rightarrow> Master \<Rightarrow> error + (db \<times> row)" where
  "create_master d master =
     (let db_master = map_of (master_dump master) in
      case masters d (LID master) of
        Some old \<Rightarrow> Inl IntegrityError
      | None \<Rightarrow>
          if has_none (master_dump master) then Inl IntegrityError
          else Inr (d\<lparr>masters := (masters d)(LID master \<mapsto> db_master)\<rparr>, db_master))"

definition create_lesson :: "db \<Rightarrow> Lesson \<Rightarrow> error + (db \<times> row)" where
  "create_lesson d lesson =
     (let db_lesson = map_of (lesson_dump lesson) in
      case lessons d (CID lesson) of
        Some old \<Rightarrow> Inl IntegrityError
      | None \<Rightarrow>
          if has_none (lesson_dump lesson) then Inl IntegrityError
          else Inr (d\<lparr>lessons := (lessons d)(CID lesson \<mapsto> db_lesson)\<rparr>, db_lesson))"

definition get_student :: "db \<Rightarrow> int \<Rightarrow> error + row" where
  "get_student d stid =
     (case students d stid of
        None \<Rightarrow> Inl (HTTPException 400 (Msg (asc ''student is not found'')))
      | Some get_std \<Rightarrow> Inr get_std)"

definition get_msr :: "db \<Rightarrow> int \<Rightarrow> error + row" where
  "get_msr d Lid =
     (case masters d Lid of
        None \<Rightarrow> Inl (HTTPException 400 (Msg (asc ''master is not found'')))
      | Some get_ms \<Rightarrow> Inr get_ms)"

definition get_lsn :: "db \<Rightarrow> int \<Rightarrow> error + row" where
  "get_lsn d Cid =
     (case lessons d Cid of
        None \<Rightarrow> Inl (HTTPException 400 (Msg (asc ''lesson is not found'')))
      | Some get_ls \<Rightarrow> Inr get_ls)"

text \<open>
  The update functions take \<open>updated_data\<close>, a dictionary (its items in order, keys
  distinct). The first loop deletes the items whose value is \<open>None\<close>; the second one
  sets each remaining item as an attribute of the loaded object, the key column included.
\<close>

definition drop_none :: "(string \<times> pyval) list \<Rightarrow> (string \<times> pyval) list" where
  "drop_none updated_data = filter (\<lambda>kv. snd kv \<noteq> PyNone) updated_data"

definition setattrs :: "row \<Rightarrow> (string \<times> pyval) list \<Rightarrow> row" where
  "setattrs obj updated_data = fold (\<lambda>kv r. r(fst kv \<mapsto> snd kv)) updated_data obj"

text \<open>The columns of the three tables (dtool/model.py).\<close>

definition student_columns :: "string list" where
  "student_columns =
     [''STID'', ''FName'', ''LName'', ''Father'', ''Birth'', ''IDS'', ''BornCity'', ''Address'',
      ''PostalCode'', ''CPhone'', ''HPhone'', ''Department'', ''Major'', ''Married'', ''ID'',
      ''SCourseIDs'', ''LIDs'']"

definition lesson_columns :: "string list" where
  "lesson_columns = [''CID'', ''CName'', ''Department'', ''Credit'']"

definition master_columns :: "string list" where
  "master_columns =
     [''LID'', ''FName'', ''LName'', ''ID'', ''Department'', ''Major'', ''Birth'', ''BornCity'',
      ''Address'', ''PostalCode'', ''CPhone'', ''HPhone'', ''LCourseIDs'']"

text \<open>
  \<open>db.commit()\<close> writes the changed object back. Its columns go to its row; an
  attribute that is not a column stays on the Python object only. When the key column
  was set, the row moves to the new key, and the commit fails with \<open>IntegrityError\<close>
  when another row has that key. A key value that is not an integer is converted or
  refused by the database server, which the model leaves out (\<open>OutsideModel\<close>).
  \<open>db.refresh\<close> then reloads the object, which is returned.
\<close>

definition new_key :: "string \<Rightarrow> int \<Rightarrow> (string \<times> pyval) list \<Rightarrow> row \<Rightarrow> error + int" where
  "new_key pk k items obj =
     (if pk \<in> fst ` set items
      then (case obj pk of Some (PyInt k') \<Rightarrow> Inr k' | _ \<Rightarrow> Inl OutsideModel)
      else Inr k)"

definition commit_update ::
  "string \<Rightarrow> string list \<Rightarrow> (int \<Rightarrow> row option) \<Rightarrow> int \<Rightarrow> (string \<times> pyval) list \<Rightarrow> row
     \<Rightarrow> error + ((int \<Rightarrow> row option) \<times> row)" where
  "commit_update pk columns table k items obj =
     (case new_key pk k items obj of
        Inl e \<Rightarrow> Inl e
      | Inr k' \<Rightarrow>
          if k' \<noteq> k \<and> table k' \<noteq> None then Inl IntegrityError
          else Inr ((table(k := None))(k' \<mapsto> obj |` set columns), obj))"

definition update_student :: "db \<Rightarrow> int \<Rightarrow> (string \<times> pyval) list \<Rightarrow> error + (db \<times> row)" where
  "update_student d stid updated_data =
     (case students d stid of
        None \<Rightarrow> Inl (HTTPException 400 (Msg (asc ''student is not found'')))
      | Some student \<Rightarrow>
          (case commit_update ''STID'' student_columns (students d) stid (drop_none updated_data)
                  (setattrs student (drop_none updated_data)) of
             Inl e \<Rightarrow> Inl e
           | Inr (table, student') \<Rightarrow> Inr (d\<lparr>students := table\<rparr>, student')))"

text \<open>
  \<open>update_master\<close> and \<open>update_course\<close> do not test the loaded object. When the query
  found nothing it is \<open>None\<close>: \<open>setattr(None, key, value)\<close> raises \<open>AttributeError\<close>, and
  with nothing left to set \<open>db.refresh(None)\<close> raises \<open>UnmappedInstanceError\<close>.
\<close>

definition update_master :: "db \<Rightarrow> int \<Rightarrow> (string \<times> pyval) list \<Rightarrow> error + (db \<times> row)" where
  "update_master d lid updated_data =
     (case masters d lid of
        None \<Rightarrow> if drop_none updated_data = [] then Inl UnmappedInstanceError else Inl AttributeError
      | Some master \<Rightarrow>
          (case commit_update ''LID'' master_columns (masters d) lid (drop_none updated_data)
                  (setattrs master (drop_none updated_data)) of
             Inl e \<Rightarrow> Inl e
           | Inr (table, master') \<Rightarrow> Inr (d\<lparr>masters := table\<rparr>, master')))"

definition update_course :: "db \<Rightarrow> int \<Rightarrow> (string \<times> pyval) list \<Rightarrow> error + (db \<times> row)" where
  "update_course d cid updated_data =
     (case lessons d cid of
        None \<Rightarrow> if drop_none updated_data = [] then Inl UnmappedInstanceError else Inl AttributeError
      | Some course \<Rightarrow>
          (case commit_update ''CID'' lesson_columns (lessons d) cid (drop_none updated_data)
                  (setattrs course (drop_none updated_data)) of
             Inl e \<Rightarrow> Inl e
           | Inr (table, course') \<Rightarrow> Inr (d\<lparr>lessons := table\<rparr>, course')))"

definition del_std :: "db \<Rightarrow> int \<Rightarrow> error + (db \<times> pystr)" where
  "del_std d stid =
     (case students d stid of
        None \<Rightarrow> Inl (HTTPException 400 (Msg (asc ''student is not found'')))
      | Some student \<Rightarrow>
          Inr (d\<lparr>students := (students d)(stid := None)\<rparr>, asc ''delete record is succesful''))"

definition del_msr :: "db \<Rightarrow> int \<Rightarrow> error + (db \<times> pystr)" where
  "del_msr d Lid =
     (case masters d Lid of
        None \<Rightarrow> Inl (HTTPException 400 (Msg (asc ''master is not found'')))
      | Some master \<Rightarrow>
          Inr (d\<lparr>masters := (masters d)(Lid := None)\<rparr>, asc ''delete record is succesful''))"

definition del_lsn :: "db \<Rightarrow> int \<Rightarrow> error + (db \<times> pystr)" where
  "del_lsn d Cid =
     (case lessons d Cid of
        None \<Rightarrow> Inl (HTTPException 400 (Msg (asc ''lesson is not found'')))
      | Some lesson \<Rightarrow>
          Inr (d\<lparr>lessons := (lessons d)(Cid := None)\<rparr>, asc ''delete record is succesful''))"

section \<open>The create handlers: course.py, master.py, student.py\<close>

subsection \<open>The patterns\<close>

text \<open>
  \<^verbatim>\<open>^(402|401|400)\<close>, \<^verbatim>\<open>...114150..\<close>, the birth certificate pattern
  \<^verbatim>\<open>([\u0627][\u0644][\u0641]|[\u0628-\u06CC])[\/][0-9]{2}\s{1}[0-9]{6}\<close>, the mobile pattern
  \<^verbatim>\<open>((0?9)|(\+?989))\d{2}\W?\d{3}\W?\d{4}\<close>, \<^verbatim>\<open>^(066)\<close> and \<^verbatim>\<open>[1-5]\<close>.
  \<open>re.findall\<close> of \<^verbatim>\<open>^(066)\<close> is non-empty exactly when the pattern matches at the
  start, since \<open>^\<close> holds nowhere else.
\<close>

definition year_pattern :: rx where
  "year_pattern = Cat Bol (Alt (Lit (asc ''402'')) (Alt (Lit (asc ''401'')) (Lit (asc ''400''))))"

definition fixed_pattern :: rx where
  "fixed_pattern =
     Cat (times 3 (Sym not_newline)) (Cat (Lit (asc ''114150'')) (times 2 (Sym not_newline)))"

definition ids_pattern :: rx where
  "ids_pattern =
     Cat (Alt (Cat (Sym (\<lambda>c. c = 1575)) (Cat (Sym (\<lambda>c. c = 1604)) (Sym (\<lambda>c. c = 1601))))
              (Sym (in_range 1576 1740)))
      (Cat (Sym (\<lambda>c. c = 47))
        (Cat (times 2 (Sym ascii_digit))
          (Cat (times 1 (Sym is_space)) (times 6 (Sym ascii_digit)))))"

definition phone_pattern :: "env \<Rightarrow> rx" where
  "phone_pattern ev =
     Cat (Alt (Cat (Opt (Lit (asc ''0''))) (Lit (asc ''9'')))
              (Cat (Opt (Lit (asc ''+''))) (Lit (asc ''989''))))
      (Cat (times 2 (Sym (re_digit ev)))
        (Cat (Opt (Sym (\<lambda>c. \<not> re_word ev c)))
          (Cat (times 3 (Sym (re_digit ev)))
            (Cat (Opt (Sym (\<lambda>c. \<not> re_word ev c))) (times 4 (Sym (re_digit ev)))))))"

definition landline_pattern :: rx where
  "landline_pattern = Cat Bol (Lit (asc ''066''))"

definition credit_pattern :: rx where
  "credit_pattern = Sym (in_range 49 53)"

subsection \<open>The error dictionary\<close>

text \<open>
  Each rule of a handler is \<open>if failed: errors[key] = message\<close>. A handler's rules are
  listed in the order of the source and applied to the dictionary in that order.
\<close>

definition set_if :: "bool \<Rightarrow> string \<Rightarrow> pystr \<Rightarrow> errs \<Rightarrow> errs" where
  "set_if failed k msg errors = (if failed then AList.update k msg errors else errors)"

definition apply_rules :: "(bool \<times> string \<times> pystr) list \<Rightarrow> errs \<Rightarrow> errs" where
  "apply_rules rules errors = fold (\<lambda>r. set_if (fst r) (fst (snd r)) (snd (snd r))) rules errors"

text \<open>The loops over referenced identifiers: one lookup per identifier.\<close>

fun lesson_refs :: "db \<Rightarrow> string \<Rightarrow> int list \<Rightarrow> errs \<Rightarrow> errs" where
  "lesson_refs d k [] errors = errors"
| "lesson_refs d k (course # cs) errors =
     lesson_refs d k cs
       (set_if (lessons d course = None) k
          (asc ''Lesson with ID '' @ asc (str_int course) @ asc '' not found'') errors)"

fun master_refs :: "db \<Rightarrow> string \<Rightarrow> int list \<Rightarrow> errs \<Rightarrow> errs" where
  "master_refs d k [] errors = errors"
| "master_refs d k (master # ms) errors =
     master_refs d k ms
       (set_if (masters d master = None) k
          (asc ''Master with ID '' @ asc (str_int master) @ asc '' not found'') errors)"

text \<open>
  \<open>int(s)\<close> for the two character slice \<open>str(STID)[9:11]\<close>, which holds decimal digits
  whenever it is evaluated; any other character raises \<open>ValueError\<close>.
\<close>

fun digits_value :: "string \<Rightarrow> int \<Rightarrow> error + int" where
  "digits_value [] acc = Inr acc"
| "digits_value (c # cs) acc =
     (case int_of_char c of Inl e \<Rightarrow> Inl e | Inr d \<Rightarrow> digits_value cs (10 * acc + d))"

definition py_int :: "string \<Rightarrow> error + int" where
  "py_int s = (if s = [] then Inl ValueError else digits_value s 0)"

definition validation_error :: "errs \<Rightarrow> error" where
  "validation_error errors = HTTPException 400 (Validation (asc ''Validation error'') errors)"

subsection \<open>\<open>course\<close> (course.py)\<close>

definition course_rules :: "Lesson \<Rightarrow> (bool \<times> string \<times> pystr) list" where
  "course_rules ln =
     [(length (str_int (CID ln)) \<noteq> 5, ''CID'', asc ''CID must be 5 digits''),
      (length (CName ln) > 25 \<or> \<not> check_farsi_name (CName ln), ''CName'',
         asc ''The maximum length of the string should be 25 and all characters should be Farsi''),
      (\<not> truthy (college_trust (LDepartment ln)), ''Department'', asc ''name college is wrong''),
      (\<not> re_match credit_pattern (Credit ln), ''credit'',
         asc ''The number of units must be between 1 and 4'')]"

definition course :: "db \<Rightarrow> Lesson \<Rightarrow> error + (db \<times> row)" where
  "course d ln =
     (case lessons d (CID ln) of
        Some db_std \<Rightarrow>
          Inl (HTTPException 400 (Msg (asc ''courseID already exists ,courseID must be unique'')))
      | None \<Rightarrow>
          let errors = apply_rules (course_rules ln) [] in
          if errors \<noteq> [] then Inl (validation_error errors) else create_lesson d ln)"

subsection \<open>\<open>master\<close> (master.py)\<close>

text \<open>
  The fields of \<open>Master\<close> that share a name with a field of \<open>Student\<close> carry the prefix
  \<open>M\<close>, and the department of a \<open>Lesson\<close> is \<open>LDepartment\<close>. \<open>id_ok\<close> is what
  \<open>validate_national_id\<close> returned; the loop over \<open>LCourseIDs\<close> runs only for a non-empty list.
\<close>

definition master_rules :: "env \<Rightarrow> Master \<Rightarrow> bool \<Rightarrow> (bool \<times> string \<times> pystr) list" where
  "master_rules ev mr id_ok =
     [(length (str_int (LID mr)) \<noteq> 6, ''LID'', asc ''The number of digits entered is incorrect''),
      (\<not> check_farsi_name (MFName mr), ''FName'',
         asc ''All letters must be Farsi or Do not contain special symbols or numbers''),
      (\<not> check_farsi_name (MLName mr), ''LName'',
         asc ''All letters must be Farsi or Do not contain special symbols or numbers''),
      (length (MFName mr) > 10 \<or> length (MLName mr) > 10, ''FName or LName'',
         asc ''The maximum string length must be ten''),
      (\<not> id_ok, ''ID'', asc ''code melli is incorrect''),
      (\<not> truthy (college_trust (MDepartment mr)), ''Department'', asc ''name college is wrong''),
      (\<not> truthy (trust ev (MMajor mr)), ''Major'', asc ''field of study is wrong''),
      (\<not> check_shamsi ev (MBirth mr), ''Birth'', asc ''This date is incorrect''),
      (\<not> truthy (is_cities ev (MBornCity mr)), ''BornCity'', asc ''incorrect province''),
      (100 < length (MAddress mr), ''Address'', asc ''address incorrectly''),
      (length (MPostalCode mr) \<noteq> 10, ''PostalCode'', asc ''postal code is invalued''),
      (\<not> re_match (phone_pattern ev) (MCPhone mr), ''CPhone'',
         asc ''Mobile phone number must be start with 09 and 11 digits''),
      (length (MHPhone mr) \<noteq> 11, ''HPhone'', asc ''landline number must be 11 digits''),
      (\<not> re_match landline_pattern (MHPhone mr), ''landline_number'',
         asc ''is landline number incorrect '')]"

definition master :: "env \<Rightarrow> db \<Rightarrow> Master \<Rightarrow> error + (db \<times> row)" where
  "master ev d mr =
     (case masters d (LID mr) of
        Some db_mr \<Rightarrow>
          Inl (HTTPException 400
                 (Msg (asc ''This teacher exists with the number '' @ asc (str_int (LID mr)))))
      | None \<Rightarrow>
          (case validate_national_id (MID mr) of
             Inl e \<Rightarrow> Inl e
           | Inr id_ok \<Rightarrow>
               let errors = apply_rules (master_rules ev mr id_ok) [];
                   errors = (case LCourseIDs mr of
                               None \<Rightarrow> errors
                             | Some cs \<Rightarrow> lesson_refs d ''LCourseIDs'' cs errors)
               in if errors \<noteq> [] then Inl (validation_error errors) else create_master d mr))"

subsection \<open>\<open>create_std\<close> (student.py)\<close>

text \<open>
  \<open>idx\<close> is \<open>int(str(users.STID)[9:11])\<close>, evaluated only when the identifier has 11
  characters, and \<open>id_ok\<close> is what \<open>validate_national_id\<close> returned.
\<close>

definition student_rules :: "env \<Rightarrow> Student \<Rightarrow> int \<Rightarrow> bool \<Rightarrow> (bool \<times> string \<times> pystr) list" where
  "student_rules ev users idx id_ok =
     [(length (str_int (STID users)) \<noteq> 11, ''STID'',
         asc ''The number of digits entered is incorrect''),
      (\<not> re_match year_pattern (asc (str_int (STID users))), ''STID1'',
         asc ''The year field is incorrect''),
      (\<not> re_match fixed_pattern (asc (str_int (STID users))), ''STID2'',
         asc ''The fixed field is wrong''),
      (length (str_int (STID users)) = 11 \<and> \<not> (99 \<ge> idx \<and> idx \<ge> 1), ''STID3'',
         asc ''The index part is wrong''),
      (\<not> (check_farsi_name (FName users) \<and> check_farsi_name (LName users)
           \<and> check_farsi_name (Father users)), ''name'',
         asc ''All letters must be Farsi or Do not contain special symbols or numbers''),
      (length (FName users) > 10 \<or> length (LName users) > 10 \<or> length (Father users) > 10,
         ''name2'', asc ''The maximum string length must be ten''),
      (\<not> check_shamsi ev (Birth users), ''Birth'', asc ''This date is incorrect''),
      (\<not> re_match ids_pattern (IDS users), ''IDS'',
         asc ''The letter part of the birth certificate was entered incorrectly''),
      (\<not> truthy (is_cities ev (BornCity users)), ''BornCity'', asc ''incorrect province''),
      (100 < length (Address users), ''address'', asc ''address incorrectly''),
      (\<not> check_farsi_name (Address users), ''address1'', asc ''address must be farsi''),
      (length (str_int (PostalCode users)) \<noteq> 10, ''postal_code'', asc ''postal code is invalued''),
      (\<not> re_match (phone_pattern ev) (CPhone users), ''CPhone'',
         asc ''Mobile phone number must be start with 09 and 11 digits''),
      (length (HPhone users) \<noteq> 11, ''landline_number'', asc ''landline number must be 11 digits''),
      (\<not> re_match landline_pattern (HPhone users), ''landline_number'',
         asc ''is landline number incorrect ''),
      (\<not> truthy (college_trust (Department users)), ''name_college'', asc ''name college is wrong''),
      (\<not> truthy (trust ev (Major users)), ''field_study'', asc ''field of study is wrong''),
      (\<not> (Married users = [1605, 1578, 1575, 1607, 1604] \<or> Married users = [1605, 1580, 1585, 1583]),
         ''marital'', asc ''is marital status is wrong value''),
      (\<not> id_ok, ''code_melli'', asc ''code melli is incorrect'')]"

text \<open>
  The handler starts with the two loops over \<open>users.SCourseIDs\<close> and \<open>users.LIDs\<close>
  (iterating \<open>None\<close> raises \<open>TypeError\<close>), then looks the identifier up, then applies
  the field rules.
\<close>

definition create_std :: "env \<Rightarrow> db \<Rightarrow> Student \<Rightarrow> error + (db \<times> row)" where
  "create_std ev d users =
     (case SCourseIDs users of
        None \<Rightarrow> Inl TypeError
      | Some cs \<Rightarrow>
     (case LIDs users of
        None \<Rightarrow> Inl TypeError
      | Some ms \<Rightarrow>
     (case students d (STID users) of
        Some db_std \<Rightarrow>
          Inl (HTTPException 400
                 (Msg (asc ''studentID already exists ,studentID must be unique'')))
      | None \<Rightarrow>
     (case (if length (str_int (STID users)) = 11
            then py_int (take 2 (drop 9 (str_int (STID users)))) else Inr 0) of
        Inl e \<Rightarrow> Inl e
      | Inr idx \<Rightarrow>
     (case validate_national_id (ID users) of
        Inl e \<Rightarrow> Inl e
      | Inr id_ok \<Rightarrow>
          let errors = master_refs d ''LID'' ms (lesson_refs d ''Lcourse'' cs []);
              errors = apply_rules (student_rules ev users idx id_ok) errors
          in if errors \<noteq> [] then Inl (validation_error errors)
             else create_student d users)))))"

subsection \<open>\<open>update_std\<close> (student.py)\<close>

text \<open>
  A field of the partial payload \<open>UpdateStudent\<close> is left out of the request, sent as
  \<open>null\<close>, or sent with a value; \<open>SCourseIDs\<close> and \<open>LIDs\<close> have no default, so they are
  always sent, as a list or as \<open>null\<close>. \<open>dict(exclude_unset=True)\<close> keeps the fields
  that were sent, in the order of the schema.
\<close>

datatype 'a field = Unset | Null | Given 'a

record UpdateStudent =
  UFName :: "pystr field"
  ULName :: "pystr field"
  UFather :: "pystr field"
  UBirth :: "pystr field"
  UIDS :: "pystr field"
  UBornCity :: "pystr field"
  UAddress :: "pystr field"
  UPostalCode :: "int field"
  UCPhone :: "pystr field"
  UHPhone :: "pystr field"
  UDepartment :: "pystr field"
  UMajor :: "pystr field"
  UMarried :: "pystr field"
  UID :: "int field"
  USCourseIDs :: "int list option"
  ULIDs :: "int list option"

definition dump_field :: "string \<Rightarrow> ('a \<Rightarrow> pyval) \<Rightarrow> 'a field \<Rightarrow> (string \<times> pyval) list" where
  "dump_field k f v = (case v of Unset \<Rightarrow> [] | Null \<Rightarrow> [(k, PyNone)] | Given x \<Rightarrow> [(k, f x)])"

definition update_dump :: "UpdateStudent \<Rightarrow> (string \<times> pyval) list" where
  "update_dump su =
     dump_field ''FName'' PyStr (UFName su) @ dump_field ''LName'' PyStr (ULName su)
     @ dump_field ''Father'' PyStr (UFather su) @ dump_field ''Birth'' PyStr (UBirth su)
     @ dump_field ''IDS'' PyStr (UIDS su) @ dump_field ''BornCity'' PyStr (UBornCity su)
     @ dump_field ''Address'' PyStr (UAddress su) @ dump_field ''PostalCode'' PyInt (UPostalCode su)
     @ dump_field ''CPhone'' PyStr (UCPhone su) @ dump_field ''HPhone'' PyStr (UHPhone su)
     @ dump_field ''Department'' PyStr (UDepartment su) @ dump_field ''Major'' PyStr (UMajor su)
     @ dump_field ''Married'' PyStr (UMarried su) @ dump_field ''ID'' PyInt (UID su)
     @ [(''SCourseIDs'', opt_list (USCourseIDs su)), (''LIDs'', opt_list (ULIDs su))]"

text \<open>
  A rule \<open>"K" in update_data and failed(update_data["K"])\<close>: false for a field that was
  not sent. \<open>on_null\<close> is what the test does with \<open>None\<close>: \<open>re.match\<close>, \<open>re.findall\<close>,
  \<open>len\<close>, \<open>x in None\<close> and \<open>None in "..."\<close> raise \<open>TypeError\<close> (so does \<open>strptime\<close>,
  with an exception \<open>check_shamsi\<close> does not catch), while \<open>len(str(None))\<close> is 4, a
  comparison with a string is false, and \<open>validate_national_id(None)\<close> returns \<open>False\<close>
  at its length test.
\<close>

definition field_rule :: "'a field \<Rightarrow> error + bool \<Rightarrow> ('a \<Rightarrow> error + bool) \<Rightarrow> error + bool" where
  "field_rule v on_null failed =
     (case v of Unset \<Rightarrow> Inr False | Null \<Rightarrow> on_null | Given x \<Rightarrow> failed x)"

definition membership_of_none :: "pystr list \<Rightarrow> error + bool" where
  "membership_of_none ob = (if ob = [] then Inr True else Inl TypeError)"

definition id_rule :: "int \<Rightarrow> error + bool" where
  "id_rule n = (case validate_national_id n of Inl e \<Rightarrow> Inl e | Inr ok \<Rightarrow> Inr (\<not> ok))"

definition update_rules :: "env \<Rightarrow> UpdateStudent \<Rightarrow> ((error + bool) \<times> string \<times> pystr) list" where
  "update_rules ev su =
     [(field_rule (UFName su) (Inl TypeError) (\<lambda>x. Inr (\<not> check_farsi_name x)), ''FName'',
         asc ''All letters must be Farsi or Do not contain special symbols or numbers''),
      (field_rule (ULName su) (Inl TypeError) (\<lambda>x. Inr (\<not> check_farsi_name x)), ''LName'',
         asc ''All letters must be Farsi or Do not contain special symbols or numbers''),
      (field_rule (UFather su) (Inl TypeError) (\<lambda>x. Inr (\<not> check_farsi_name x)), ''Father'',
         asc ''All letters must be Farsi or Do not contain special symbols or numbers''),
      (field_rule (UFName su) (Inl TypeError) (\<lambda>x. Inr (length x > 10)), ''FName1'',
         asc ''The maximum string length must be ten''),
      (field_rule (ULName su) (Inl TypeError) (\<lambda>x. Inr (length x > 10)), ''LName1'',
         asc ''The maximum string length must be ten''),
      (field_rule (UFather su) (Inl TypeError) (\<lambda>x. Inr (length x > 10)), ''Father1'',
         asc ''The maximum string length must be ten''),
      (field_rule (UBirth su) (Inl TypeError) (\<lambda>x. Inr (\<not> check_shamsi ev x)), ''Birth'',
         asc ''This date is incorrect''),
      (field_rule (UIDS su) (Inl TypeError) (\<lambda>x. Inr (\<not> re_match ids_pattern x)), ''IDS'',
         asc ''The letter part of the birth certificate was entered incorrectly''),
      (field_rule (UBornCity su) (membership_of_none (province ev))
         (\<lambda>x. Inr (\<not> truthy (is_cities ev x))), ''BornCity'', asc ''incorrect province''),
      (field_rule (UAddress su) (Inl TypeError) (\<lambda>x. Inr (100 < length x)), ''address'',
         asc ''address incorrectly''),
      (field_rule (UPostalCode su) (Inr True) (\<lambda>x. Inr (length (str_int x) \<noteq> 10)),
         ''postal_code'', asc ''postal code is invalued''),
      (field_rule (UCPhone su) (Inl TypeError) (\<lambda>x. Inr (\<not> re_match (phone_pattern ev) x)),
         ''CPhone'', asc ''Mobile phone number must be start with 09''),
      (field_rule (UHPhone su) (Inr True) (\<lambda>x. Inr (length x \<noteq> 11)), ''HPhone'',
         asc ''landline number must be 11 digits''),
      (field_rule (UHPhone su) (Inl TypeError) (\<lambda>x. Inr (\<not> re_match landline_pattern x)),
         ''HPhone1'', asc ''is landline number incorrect ''),
      (field_rule (UDepartment su) (Inl TypeError) (\<lambda>x. Inr (\<not> truthy (college_trust x))),
         ''Department'', asc ''name college is wrong''),
      (field_rule (UMajor su) (membership_of_none (engineering_fields ev))
         (\<lambda>x. Inr (\<not> truthy (trust ev x))), ''Major'', asc ''field of study is wrong''),
      (field_rule (UMarried su) (Inr True)
         (\<lambda>x. Inr (\<not> (x = [1605, 1578, 1575, 1607, 1604] \<or> x = [1605, 1580, 1585, 1583]))),
         ''Married'', asc ''is marital status is wrong value''),
      (field_rule (UID su) (Inr True) id_rule, ''ID'', asc ''code melli is incorrect'')]"

text \<open>The rules run in order; the first test that raises ends the request.\<close>

fun apply_rules_e :: "((error + bool) \<times> string \<times> pystr) list \<Rightarrow> errs \<Rightarrow> error + errs" where
  "apply_rules_e [] errors = Inr errors"
| "apply_rules_e (r # rules) errors =
     (case fst r of
        Inl e \<Rightarrow> Inl e
      | Inr failed \<Rightarrow> apply_rules_e rules (set_if failed (fst (snd r)) (snd (snd r)) errors))"

definition update_std :: "env \<Rightarrow> db \<Rightarrow> int \<Rightarrow> UpdateStudent \<Rightarrow> error + (db \<times> row)" where
  "update_std ev d stid student_update =
     (let update_data = update_dump student_update in
      if update_data = [] then Inl (HTTPException 400 (Msg (asc ''No fields provided for update'')))
      else
        case apply_rules_e (update_rules ev student_update) [] of
          Inl e \<Rightarrow> Inl e
        | Inr errors \<Rightarrow>
            if errors \<noteq> [] then Inl (validation_error errors)
            else update_student d stid update_data)"

subsection \<open>\<open>upt_cour\<close> (course.py)\<close>

record UpdateLesson =
  UCName :: "pystr field"
  ULDepartment :: "pystr field"
  UCredit :: "pystr field"

definition lesson_update_dump :: "UpdateLesson \<Rightarrow> (string \<times> pyval) list" where
  "lesson_update_dump ln =
     dump_field ''CName'' PyStr (UCName ln) @ dump_field ''Department'' PyStr (ULDepartment ln)
     @ dump_field ''Credit'' PyStr (UCredit ln)"

definition course_update_rules :: "UpdateLesson \<Rightarrow> ((error + bool) \<times> string \<times> pystr) list" where
  "course_update_rules ln =
     [(field_rule (UCName ln) (Inl TypeError)
         (\<lambda>x. Inr (length x > 25 \<or> \<not> check_farsi_name x)), ''CName'',
         asc ''The maximum length of the string should be 25 and all characters should be Farsi''),
      (field_rule (ULDepartment ln) (Inl TypeError) (\<lambda>x. Inr (\<not> truthy (college_trust x))),
         ''Department'', asc ''name college is wrong''),
      (field_rule (UCredit ln) (Inl TypeError) (\<lambda>x. Inr (\<not> re_match credit_pattern x)),
         ''credit'', asc ''The number of units must be between 1 and 4'')]"

definition upt_cour :: "db \<Rightarrow> int \<Rightarrow> UpdateLesson \<Rightarrow> error + (db \<times> row)" where
  "upt_cour d cid ln =
     (case lessons d cid of
        None \<Rightarrow> Inl (HTTPException 400 (Msg (asc ''CID is not found'')))
      | Some cour_que \<Rightarrow>
          (case apply_rules_e (course_update_rules ln) [] of
             Inl e \<Rightarrow> Inl e
           | Inr errors \<Rightarrow>
               if errors \<noteq> [] then Inl (validation_error errors)
               else update_course d cid (lesson_update_dump ln)))"

subsection \<open>\<open>upd_mas\<close> (master.py)\<close>

text \<open>
  Every field of \<open>UpdateMaster\<close> has the default \<open>None\<close>, the list of courses included.
  The mobile number is tested with \<open>len(str(...))\<close> and \<open>re.findall\<close> of \<^verbatim>\<open>^(09)\<close>
  here, and both rules of a name write the same key. The loop over \<open>mr.LCourseIDs\<close> runs
  for a non-empty list only.
\<close>

record UpdateMaster =
  UMFName :: "pystr field"
  UMLName :: "pystr field"
  UMID :: "int field"
  UMDepartment :: "pystr field"
  UMMajor :: "pystr field"
  UMBirth :: "pystr field"
  UMBornCity :: "pystr field"
  UMAddress :: "pystr field"
  UMPostalCode :: "pystr field"
  UMCPhone :: "pystr field"
  UMHPhone :: "pystr field"
  ULCourseIDs :: "int list field"

definition master_update_dump :: "UpdateMaster \<Rightarrow> (string \<times> pyval) list" where
  "master_update_dump mr =
     dump_field ''FName'' PyStr (UMFName mr) @ dump_field ''LName'' PyStr (UMLName mr)
     @ dump_field ''ID'' PyInt (UMID mr) @ dump_field ''Department'' PyStr (UMDepartment mr)
     @ dump_field ''Major'' PyStr (UMMajor mr) @ dump_field ''Birth'' PyStr (UMBirth mr)
     @ dump_field ''BornCity'' PyStr (UMBornCity mr) @ dump_field ''Address'' PyStr (UMAddress mr)
     @ dump_field ''PostalCode'' PyStr (UMPostalCode mr) @ dump_field ''CPhone'' PyStr (UMCPhone mr)
     @ dump_field ''HPhone'' PyStr (UMHPhone mr) @ dump_field ''LCourseIDs'' PyList (ULCourseIDs mr)"

definition mobile_prefix_pattern :: rx where
  "mobile_prefix_pattern = Cat Bol (Lit (asc ''09''))"

definition master_update_rules :: "env \<Rightarrow> UpdateMaster \<Rightarrow> ((error + bool) \<times> string \<times> pystr) list" where
  "master_update_rules ev mr =
     [(field_rule (UMFName mr) (Inl TypeError) (\<lambda>x. Inr (\<not> check_farsi_name x)), ''FName'',
         asc ''All letters must be Farsi or Do not contain special symbols or numbers''),
      (field_rule (UMFName mr) (Inl TypeError) (\<lambda>x. Inr (length x > 10)), ''FName'',
         asc ''The maximum string length must be ten''),
      (field_rule (UMLName mr) (Inl TypeError) (\<lambda>x. Inr (\<not> check_farsi_name x)), ''LName'',
         asc ''All letters must be Farsi or Do not contain special symbols or numbers''),
      (field_rule (UMLName mr) (Inl TypeError) (\<lambda>x. Inr (length x > 10)), ''LName'',
         asc ''The maximum string length must be ten''),
      (field_rule (UMID mr) (Inr True) id_rule, ''ID'', asc ''code melli is incorrect''),
      (field_rule (UMDepartment mr) (Inl TypeError) (\<lambda>x. Inr (\<not> truthy (college_trust x))),
         ''Department'', asc ''name college is wrong''),
      (field_rule (UMMajor mr) (membership_of_none (engineering_fields ev))
         (\<lambda>x. Inr (\<not> truthy (trust ev x))), ''Major'', asc ''field of study is wrong''),
      (field_rule (UMBirth mr) (Inl TypeError) (\<lambda>x. Inr (\<not> check_shamsi ev x)), ''Birth'',
         asc ''This date is incorrect''),
      (field_rule (UMBornCity mr) (membership_of_none (province ev))
         (\<lambda>x. Inr (\<not> truthy (is_cities ev x))), ''BornCity'', asc ''incorrect province''),
      (field_rule (UMAddress mr) (Inl TypeError) (\<lambda>x. Inr (100 < length x)), ''address'',
         asc ''address incorrectly''),
      (field_rule (UMPostalCode mr) (Inr True) (\<lambda>x. Inr (length x \<noteq> 10)), ''PostalCode'',
         asc ''postal code is invalued''),
      (field_rule (UMCPhone mr) (Inr True) (\<lambda>x. Inr (length x \<noteq> 11)), ''CPhone'',
         asc ''Mobile phone number must be 11 digits''),
      (field_rule (UMCPhone mr) (Inl TypeError) (\<lambda>x. Inr (\<not> re_match mobile_prefix_pattern x)),
         ''CPhone1'', asc ''Mobile phone number must be start with 09''),
      (field_rule (UMHPhone mr) (Inr True) (\<lambda>x. Inr (length x \<noteq> 11)), ''HPhone'',
         asc ''landline number must be 11 digits''),
      (field_rule (UMHPhone mr) (Inl TypeError) (\<lambda>x. Inr (\<not> re_match landline_pattern x)),
         ''HPhone1'', asc ''is landline number incorrect '')]"

definition upd_mas :: "env \<Rightarrow> db \<Rightarrow> int \<Rightarrow> UpdateMaster \<Rightarrow> error + (db \<times> row)" where
  "upd_mas ev d lid mr =
     (case masters d lid of
        None \<Rightarrow> Inl (HTTPException 404 (Msg (asc ''There is no such master'')))
      | Some mr1 \<Rightarrow>
          if master_update_dump mr = []
          then Inl (HTTPException 400 (Msg (asc ''No fields provided for update'')))
          else
            (case apply_rules_e (master_update_rules ev mr) [] of
               Inl e \<Rightarrow> Inl e
             | Inr errors \<Rightarrow>
                 let errors = (case ULCourseIDs mr of
                                 Given cs \<Rightarrow> lesson_refs d ''LCourseIDs'' cs errors
                               | _ \<Rightarrow> errors)
                 in if errors \<noteq> [] then Inl (validation_error errors)
                    else update_master d lid (master_update_dump mr)))"

section \<open>Definitions used to state the properties\<close>

text \<open>
  What a partial update is specified to leave behind: an attribute keeps its stored value
  when the payload does not name it or names it with \<open>None\<close>, and takes the payload's
  value otherwise.
\<close>

definition applied :: "row \<Rightarrow> (string \<times> pyval) list \<Rightarrow> row" where
  "applied obj payload k =
     (case map_of payload k of
        None \<Rightarrow> obj k
      | Some v \<Rightarrow> if v = PyNone then obj k else Some v)"

definition one_lesson_db :: db where
  "one_lesson_db =
     empty_db\<lparr>lessons := [10001 \<mapsto> map_of (lesson_dump
        \<lparr>CID = 10001, CName = [1585, 1740, 1575, 1590, 1740],
         LDepartment = [1593, 1604, 1608, 1605, 32, 1662, 1575, 1740, 1607], Credit = [51]\<rparr>)]\<rparr>"

text \<open>
  Reference data and payloads for the examples: one province and one field of study, a
  date parser that accepts one date, and ASCII tables for \<open>\d\<close> and \<open>\w\<close>.
\<close>

definition demo_env :: env where
  "demo_env =
     \<lparr>iran_provinces = [[1578, 1607, 1585, 1575, 1606]],
      province = [[1578, 1607, 1585, 1575, 1606]],
      engineering_fields = [[1576, 1585, 1602]],
      strptime_ok = (\<lambda>s. s = asc ''1380/01/01''),
      re_digit = ascii_digit,
      re_word = (\<lambda>c. ascii_digit c \<or> latin_letter c \<or> c = 95)\<rparr>"

definition demo_lesson :: Lesson where
  "demo_lesson =
     \<lparr>CID = 12345, CName = [1585, 1740, 1575, 1590, 1740],
      LDepartment = [1593, 1604, 1608, 1605, 32, 1662, 1575, 1740, 1607], Credit = [51]\<rparr>"

definition demo_student :: Student where
  "demo_student =
     \<lparr>STID = 40211415001, FName = [1593, 1604, 1740], LName = [1585, 1590, 1575, 1740, 1740],
      Father = [1581, 1587, 1606], Birth = asc ''1380/01/01'',
      IDS = [1575, 1604, 1601, 47, 49, 50, 32, 49, 50, 51, 52, 53, 54],
      BornCity = [1578, 1607, 1585, 1575, 1606], Address = [1578, 1607, 1585, 1575, 1606],
      PostalCode = 1234567891, CPhone = asc ''09123456789'', HPhone = asc ''06612345678'',
      Department = [1593, 1604, 1608, 1605, 32, 1662, 1575, 1740, 1607],
      Major = [1576, 1585, 1602], Married = [1605, 1580, 1585, 1583], ID = 1234567891,
      SCourseIDs = Some [12345], LIDs = Some []\<rparr>"

text \<open>
  Requests to the create, update and delete endpoints, run one after the other; a request
  that fails leaves the store as it was. The delete handlers only call \<open>crud.del_std\<close>,
  \<open>crud.del_msr\<close> and \<open>crud.del_lsn\<close>.
\<close>

datatype request =
    CreateStudent Student
  | CreateMaster Master
  | CreateCourse Lesson
  | PatchStudent int UpdateStudent
  | PatchMaster int UpdateMaster
  | PatchCourse int UpdateLesson
  | DeleteStudent int
  | DeleteMaster int
  | DeleteCourse int

definition store_after :: "db \<Rightarrow> error + (db \<times> 'a) \<Rightarrow> db" where
  "store_after d res = (case res of Inl e \<Rightarrow> d | Inr p \<Rightarrow> fst p)"

fun handle :: "env \<Rightarrow> db \<Rightarrow> request \<Rightarrow> db" where
  "handle ev d (CreateStudent users) = store_after d (create_std ev d users)"
| "handle ev d (CreateMaster mr) = store_after d (master ev d mr)"
| "handle ev d (CreateCourse ln) = store_after d (course d ln)"
| "handle ev d (PatchStudent k su) = store_after d (update_std ev d k su)"
| "handle ev d (PatchMaster k mr) = store_after d (upd_mas ev d k mr)"
| "handle ev d (PatchCourse k ln) = store_after d (upt_cour d k ln)"
| "handle ev d (DeleteStudent k) = store_after d (del_std d k)"
| "handle ev d (DeleteMaster k) = store_after d (del_msr d k)"
| "handle ev d (DeleteCourse k) = store_after d (del_lsn d k)"

definition run :: "env \<Rightarrow> request list \<Rightarrow> db \<Rightarrow> db" where
  "run ev reqs d = fold (\<lambda>r s. handle ev s r) reqs d"









text \<open>
  A student payload that breaks three rules: a Latin first name, a three digit postal
  code and an unknown marital status.
\<close>

definition rejected_student :: Student where
  "rejected_student =
     demo_student\<lparr>FName := asc ''Ali'', PostalCode := 123, Married := asc ''single''\<rparr>"

text \<open>An update that sends only the two lists: a course identifier no lesson has.\<close>

definition enrol_unknown :: UpdateStudent where
  "enrol_unknown =
     \<lparr>UFName = Unset, ULName = Unset, UFather = Unset, UBirth = Unset, UIDS = Unset,
      UBornCity = Unset, UAddress = Unset, UPostalCode = Unset, UCPhone = Unset,
      UHPhone = Unset, UDepartment = Unset, UMajor = Unset, UMarried = Unset, UID = Unset,
      USCourseIDs = Some [99999], ULIDs = Some []\<rparr>"

text \<open>Course update payloads that send a null name, or leave the name out.\<close>

definition null_name :: UpdateLesson where
  "null_name = \<lparr>UCName = Null, ULDepartment = Unset, UCredit = Given [51]\<rparr>"

definition no_name :: UpdateLesson where
  "no_name = \<lparr>UCName = Unset, ULDepartment = Unset, UCredit = Given [51]\<rparr>"

text \<open>A student update that also sends a Latin first name.\<close>

definition latin_name_update :: UpdateStudent where
  "latin_name_update = enrol_unknown\<lparr>UFName := Given (asc ''Ali'')\<rparr>"

section \<open>The national identifier\<close>

lemma length_digits_of:
  "10 ^ k \<le> n \<Longrightarrow> n < 10 ^ Suc k \<Longrightarrow> length (digits_of n) = Suc k"
proof (induction k arbitrary: n)
  case 0
  then show ?case by (simp add: digits_of.simps)
next
  case (Suc k)
  have big: "\<not> n < 10"
  proof -
    have "(10::nat) \<le> 10 * 10 ^ k" by simp
    also have "\<dots> \<le> n" using Suc.prems(1) by simp
    finally show ?thesis by simp
  qed
  have lo: "10 ^ k \<le> n div 10" using Suc.prems(1) by (simp add: less_eq_div_iff_mult_less_eq)
  have hi: "n div 10 < 10 ^ Suc k" using Suc.prems(2) by (simp add: div_less_iff_less_mult)
  have "length (digits_of (n div 10)) = Suc k" by (rule Suc.IH [OF lo hi])
  with big show ?case by (subst digits_of.simps) simp
qed

lemma weighted_sum_zeros:
  "i + length ws \<le> k \<Longrightarrow> weighted_sum (replicate k CHR ''0'') i ws = Inr 0"
  by (induction ws arbitrary: i) (simp_all add: getitem_def int_of_char_def)

lemma length_str_int_nonneg:
  "10 ^ k \<le> n \<Longrightarrow> n < 10 ^ Suc k \<Longrightarrow> length (str_int n) = Suc k"
proof -
  assume a: "10 ^ k \<le> n" and b: "n < 10 ^ Suc k"
  have "0 \<le> n" using a by (meson order_trans zero_le_numeral zero_le_power)
  moreover have "10 ^ k \<le> nat n" using a by (simp add: le_nat_iff)
  moreover have "nat n < 10 ^ Suc k" using b \<open>0 \<le> n\<close> by (simp add: nat_less_iff)
  ultimately show ?thesis by (simp add: str_int_def length_digits_of)
qed

lemma validate_short_ids_accepted:
  assumes "10 ^ 7 \<le> n" and "n < 10 ^ 9"
  shows "validate_national_id n = Inr True"
proof -
  have len: "length (str_int n) = 8 \<or> length (str_int n) = 9"
  proof (cases "n < 10 ^ 8")
    case True
    with assms(1) have "length (str_int n) = Suc 7" by (intro length_str_int_nonneg) simp_all
    then show ?thesis by simp
  next
    case False
    with assms(2) have "length (str_int n) = Suc 8" by (intro length_str_int_nonneg) simp_all
    then show ?thesis by simp
  qed
  define k where "k = nat (10 - int (length (str_int n)) + n)"
  have k: "10 \<le> k" using len assms(1) by (auto simp: k_def)
  have ws: "weighted_sum (replicate k CHR ''0'') 0 coefficients = Inr 0"
    by (rule weighted_sum_zeros) (use k in \<open>simp add: coefficients_def\<close>)
  have g: "getitem (replicate k CHR ''0'') 9 = Inr CHR ''0''"
    using k by (simp add: getitem_def)
  show ?thesis
    using len ws g by (auto simp: validate_national_id_def Let_def k_def [symmetric] int_of_char_def)
qed

lemma short_id_12345678_accepted: "validate_national_id 12345678 = Inr True"
  by (rule validate_short_ids_accepted) simp_all

lemma str_int_12345678: "str_int 12345678 = ''12345678''"
  by (simp add: str_int_def digits_of.simps digit_char_def)

lemma spec_pad10_12345678: "spec_pad10 12345678 = ''0012345678''"
  by (simp add: spec_pad10_def str_int_12345678 numeral_2_eq_2)

lemma spec_rejects_12345678: "spec_validate_national_id 12345678 = False"
  by (simp add: spec_validate_national_id_def str_int_12345678 spec_pad10_12345678 spec_checksum_ok_def
      coefficients_def digit_val_def int_of_char_def Let_def)


lemma digit_char_is_digit: "d < 10 \<Longrightarrow> int_of_char (digit_char d) = Inr (int d)"
proof -
  assume "d < 10"
  then have "d = 0 \<or> d = 1 \<or> d = 2 \<or> d = 3 \<or> d = 4 \<or> d = 5 \<or> d = 6 \<or> d = 7
    \<or> d = 8 \<or> d = 9" by arith
  then show ?thesis by (elim disjE) (simp_all add: digit_char_def int_of_char_def)
qed

lemma digits_of_are_digits:
  "c \<in> set (digits_of n) \<Longrightarrow> \<exists>d. int_of_char c = Inr d"
proof (induction n rule: digits_of.induct)
  case (1 n)
  show ?case
  proof (cases "n < 10")
    case True
    with "1.prems" have "c = digit_char n" by (simp add: digits_of.simps)
    with True show ?thesis by (simp add: digit_char_is_digit)
  next
    case False
    with "1.prems" have "c \<in> set (digits_of (n div 10)) \<or> c = digit_char (n mod 10)"
      by (subst (asm) digits_of.simps) auto
    then show ?thesis
    proof
      assume "c \<in> set (digits_of (n div 10))"
      with False show ?thesis using "1.IH" by blast
    next
      assume "c = digit_char (n mod 10)"
      then show ?thesis by (simp add: digit_char_is_digit)
    qed
  qed
qed

lemma weighted_sum_digits:
  assumes "\<And>c. c \<in> set s \<Longrightarrow> \<exists>d. int_of_char c = Inr d"
  shows "i + length ws \<le> length s \<Longrightarrow>
    weighted_sum s i ws = Inr (sum_list (map2 (\<lambda>c w. digit_val c * w) (drop i s) ws))"
proof (induction ws arbitrary: i)
  case Nil
  then show ?case by simp
next
  case (Cons w ws)
  then have i: "i < length s" and r: "Suc i + length ws \<le> length s" by simp_all
  from i obtain d where d: "int_of_char (s ! i) = Inr d" using assms by force
  have dr: "drop i s = s ! i # drop (Suc i) s" using i by (simp add: Cons_nth_drop_Suc)
  show ?case
    using Cons.IH [OF r] i d by (simp add: getitem_def dr digit_val_def)
qed

lemma validate_ten_digit_ids:
  assumes "10 ^ 9 \<le> n" and "n < 10 ^ 10"
  shows "validate_national_id n = Inr (spec_validate_national_id n)"
proof -
  have len: "length (str_int n) = 10"
    using length_str_int_nonneg [of 9 n] assms by simp
  have nonneg: "\<not> n < 0" using assms(1) by simp
  have digs: "\<And>c. c \<in> set (str_int n) \<Longrightarrow> \<exists>d. int_of_char c = Inr d"
    using nonneg by (simp add: str_int_def digits_of_are_digits)
  have ws: "weighted_sum (str_int n) 0 coefficients =
      Inr (sum_list (map2 (\<lambda>c w. digit_val c * w) (str_int n) coefficients))"
    using weighted_sum_digits [of "str_int n" 0 coefficients] digs len
    by (simp add: coefficients_def)
  have z: "zip (take 9 (str_int n)) coefficients = zip (str_int n) coefficients"
  proof -
    have "zip (take 9 (str_int n)) coefficients = take 9 (zip (str_int n) coefficients)"
      by (simp add: take_zip coefficients_def)
    also have "\<dots> = zip (str_int n) coefficients" by (simp add: len coefficients_def)
    finally show ?thesis .
  qed
  have "str_int n ! 9 \<in> set (str_int n)" using len by simp
  then obtain d where d: "int_of_char (str_int n ! 9) = Inr d" using digs by blast
  have pad: "spec_pad10 n = str_int n" by (simp add: spec_pad10_def len)
  show ?thesis
    using len ws d
    by (simp add: validate_national_id_def spec_validate_national_id_def spec_checksum_ok_def
        pad z getitem_def digit_val_def Let_def)
qed

text \<open>
  Claim C1. The specification pads an 8 or 9 digit identifier with zeros on the left and
  checks the weighted checksum. The source adds the number itself to the repetition count,
  so the padded string is all zeros and the check always succeeds: \<open>12345678\<close> is
  accepted although the checksum of \<open>0012345678\<close> asks for the last digit 9.
  (For ten digit identifiers the source follows the rule: \<open>validate_ten_digit_ids\<close>.)
\<close>

theorem national_id_short_input_diverges:
  "validate_national_id 12345678 = Inr True \<and> spec_validate_national_id 12345678 = False"
  using validate_short_ids_accepted [of 12345678] spec_rejects_12345678 by simp


section \<open>The Farsi name check\<close>

lemma concat_nonempty: "concat xs \<noteq> [] \<longleftrightarrow> (\<exists>x \<in> set xs. x \<noteq> [])"
  by (induction xs) auto

lemma Eol_nonempty:
  "rx_ends Eol s k \<noteq> [] \<longleftrightarrow> k = length s \<or> (Suc k = length s \<and> s ! k = 10)"
  by simp

lemma farsi_pattern_ends:
  "re_match farsi_pattern n \<longleftrightarrow>
     (\<exists>k. 1 \<le> k \<and> k \<le> length (takeWhile farsi_class n) \<and>
          (k = length n \<or> (Suc k = length n \<and> n ! k = 10)))"
proof -
  define m where "m = length (takeWhile farsi_class n)"
  have "rx_ends farsi_pattern n 0 = concat (map (rx_ends Eol n) (rev [1..<Suc m]))"
    by (simp add: farsi_pattern_def m_def comp_def del: rx_ends.simps(8) upt_Suc)
  then have "re_match farsi_pattern n \<longleftrightarrow> (\<exists>k \<in> set [1..<Suc m]. rx_ends Eol n k \<noteq> [])"
    by (simp add: re_match_def concat_nonempty del: rx_ends.simps(8) upt_Suc)
  also have "\<dots> \<longleftrightarrow> (\<exists>k. 1 \<le> k \<and> k \<le> m \<and> (k = length n \<or> (Suc k = length n \<and> n ! k = 10)))"
    unfolding Eol_nonempty by auto
  finally show ?thesis by (simp add: m_def)
qed

lemma newline_in_farsi_class: "farsi_class 10"
  by (simp add: farsi_class_def is_space_def in_range_def)

lemma takeWhile_all_iff: "length (takeWhile P xs) = length xs \<longleftrightarrow> list_all P xs"
  by (induction xs) auto

lemma check_farsi_name_iff:
  "check_farsi_name n \<longleftrightarrow> n \<noteq> [] \<and> list_all farsi_class n"
proof
  assume "check_farsi_name n"
  then have "re_match farsi_pattern n" by (simp add: check_farsi_name_def split: if_splits)
  then obtain k where k: "1 \<le> k" "k \<le> length (takeWhile farsi_class n)"
    and e: "k = length n \<or> (Suc k = length n \<and> n ! k = 10)"
    unfolding farsi_pattern_ends by blast
  have le: "length (takeWhile farsi_class n) \<le> length n" by (rule length_takeWhile_le)
  have full: "length (takeWhile farsi_class n) = length n"
  proof (rule ccontr)
    assume ne: "length (takeWhile farsi_class n) \<noteq> length n"
    with e k le have s: "Suc k = length n" and nl: "n ! k = 10" by auto
    from ne le s k have m: "length (takeWhile farsi_class n) = k" by simp
    have "k < length n" using s by simp
    with m have "\<not> farsi_class (n ! k)" using nth_length_takeWhile [of farsi_class n] by simp
    with nl show False by (simp add: newline_in_farsi_class)
  qed
  from k full have "n \<noteq> []" by auto
  with full show "n \<noteq> [] \<and> list_all farsi_class n" by (simp add: takeWhile_all_iff)
next
  assume a: "n \<noteq> [] \<and> list_all farsi_class n"
  then have "length (takeWhile farsi_class n) = length n" by (simp add: takeWhile_all_iff)
  moreover have "1 \<le> length n" using a by (cases n) simp_all
  ultimately have "re_match farsi_pattern n" unfolding farsi_pattern_ends by auto
  then show "check_farsi_name n" by (simp add: check_farsi_name_def)
qed

lemma latin_not_farsi: "latin_letter c \<Longrightarrow> \<not> farsi_class c"
  by (auto simp: latin_letter_def farsi_class_def is_space_def in_range_def)

lemma persian_letter_farsi: "c \<in> set persian_letters \<Longrightarrow> farsi_class c"
  by (auto simp: persian_letters_def farsi_class_def in_range_def)

lemma name_char_farsi:
  "c \<in> set persian_letters \<or> in_range 49 57 c \<or> c = 32 \<Longrightarrow> farsi_class c"
  using persian_letter_farsi [of c]
  by (auto simp: farsi_class_def is_space_def in_range_def)

text \<open>
  Claim C3. \<open>check_farsi_name\<close> accepts exactly the non-empty strings whose characters
  all lie in the class of the pattern (U+0600 to U+06FF, whitespace, the digits 1 to 9).
  So a string with a Latin letter, or any character outside the class, is rejected; a
  non-empty string of Persian letters, digits 1 to 9 and spaces is accepted; the empty
  string is rejected.
\<close>

theorem check_farsi_name_accepts_exactly:
  "(check_farsi_name n \<longleftrightarrow> n \<noteq> [] \<and> list_all farsi_class n)
   \<and> (list_ex (\<lambda>c. latin_letter c \<or> \<not> farsi_class c) n \<longrightarrow> \<not> check_farsi_name n)
   \<and> (n \<noteq> [] \<and> list_all (\<lambda>c. c \<in> set persian_letters \<or> in_range 49 57 c \<or> c = 32) n
        \<longrightarrow> check_farsi_name n)
   \<and> \<not> check_farsi_name []"
proof (intro conjI impI)
  show "check_farsi_name n \<longleftrightarrow> n \<noteq> [] \<and> list_all farsi_class n"
    by (rule check_farsi_name_iff)
  show "\<not> check_farsi_name []" by (simp add: check_farsi_name_iff)
next
  assume "list_ex (\<lambda>c. latin_letter c \<or> \<not> farsi_class c) n"
  then obtain c where "c \<in> set n" and "latin_letter c \<or> \<not> farsi_class c"
    by (auto simp: list_ex_iff)
  then have "\<not> list_all farsi_class n" using latin_not_farsi by (auto simp: list_all_iff)
  then show "\<not> check_farsi_name n" by (simp add: check_farsi_name_iff)
next
  assume a: "n \<noteq> [] \<and> list_all (\<lambda>c. c \<in> set persian_letters \<or> in_range 49 57 c \<or> c = 32) n"
  then have "list_all farsi_class n" using name_char_farsi by (auto simp: list_all_iff)
  with a show "check_farsi_name n" by (simp add: check_farsi_name_iff)
qed

theorem check_farsi_name_examples:
  "check_farsi_name [1593, 1604, 1740, 32, 49] \<and> \<not> check_farsi_name [65, 108, 105]
   \<and> \<not> check_farsi_name [1593, 48]"
  using check_farsi_name_accepts_exactly [of "[1593, 1604, 1740, 32, 49]"]
    check_farsi_name_accepts_exactly [of "[65, 108, 105]"]
    check_farsi_name_accepts_exactly [of "[1593, 48]"]
  by (simp add: farsi_class_def is_space_def in_range_def)


section \<open>The update functions of dtool/crud.py\<close>

lemma setattrs_map_of:
  "distinct (map fst xs) \<Longrightarrow>
     setattrs obj xs k = (case map_of xs k of None \<Rightarrow> obj k | Some v \<Rightarrow> Some v)"
proof (induction xs arbitrary: obj)
  case Nil
  then show ?case by (simp add: setattrs_def)
next
  case (Cons x xs)
  have step: "setattrs obj (x # xs) = setattrs (obj(fst x \<mapsto> snd x)) xs"
    by (simp add: setattrs_def)
  have d: "distinct (map fst xs)" and nx: "fst x \<notin> fst ` set xs" using Cons.prems by simp_all
  have none: "map_of xs (fst x) = None" using nx by (simp add: map_of_eq_None_iff)
  show ?case
    unfolding step Cons.IH [OF d]
    by (cases x) (use none in \<open>auto split: option.splits\<close>)
qed

lemma map_of_drop_none:
  "distinct (map fst xs) \<Longrightarrow>
     map_of (drop_none xs) k =
       (case map_of xs k of None \<Rightarrow> None | Some v \<Rightarrow> if v = PyNone then None else Some v)"
proof (induction xs)
  case Nil
  then show ?case by (simp add: drop_none_def)
next
  case (Cons x xs)
  then have nx: "fst x \<notin> fst ` set xs" and d: "distinct (map fst xs)" by simp_all
  have none: "map_of xs (fst x) = None" using nx by (simp add: map_of_eq_None_iff)
  have ih: "map_of (drop_none xs) k =
       (case map_of xs k of None \<Rightarrow> None | Some v \<Rightarrow> if v = PyNone then None else Some v)"
    by (rule Cons.IH [OF d])
  show ?case
    using ih none by (cases x) (auto simp: drop_none_def split: option.splits)
qed

lemma distinct_drop_none: "distinct (map fst xs) \<Longrightarrow> distinct (map fst (drop_none xs))"
  by (simp add: drop_none_def distinct_map_filter)

lemma setattrs_drop_none:
  assumes "distinct (map fst xs)"
  shows "setattrs obj (drop_none xs) = applied obj xs"
proof
  fix k
  show "setattrs obj (drop_none xs) k = applied obj xs k"
    by (simp add: setattrs_map_of [OF distinct_drop_none [OF assms]] map_of_drop_none [OF assms]
        applied_def split: option.splits)
qed

lemma drop_none_idem: "drop_none (drop_none payload) = drop_none payload"
  by (simp add: drop_none_def)

lemma drop_none_keys: "fst ` set (drop_none payload) \<subseteq> fst ` set payload"
  by (auto simp: drop_none_def)

lemma commit_update_keyless:
  assumes "pk \<notin> fst ` set payload"
  shows "commit_update pk columns table k (drop_none payload) obj =
           Inr (table(k \<mapsto> obj |` set columns), obj)"
proof -
  have "pk \<notin> fst ` set (drop_none payload)" using assms drop_none_keys by blast
  then show ?thesis by (simp add: commit_update_def new_key_def)
qed

lemma update_student_keyless:
  assumes "students d k = Some r" and "distinct (map fst payload)"
    and "''STID'' \<notin> fst ` set payload"
  shows "update_student d k payload =
           Inr (d\<lparr>students := (students d)(k \<mapsto> applied r payload |` set student_columns)\<rparr>,
                applied r payload)"
  using assms(1)
  by (simp add: update_student_def commit_update_keyless [OF assms(3)]
      setattrs_drop_none [OF assms(2)])

lemma update_course_keyless:
  assumes "lessons d k = Some r" and "distinct (map fst payload)"
    and "''CID'' \<notin> fst ` set payload"
  shows "update_course d k payload =
           Inr (d\<lparr>lessons := (lessons d)(k \<mapsto> applied r payload |` set lesson_columns)\<rparr>,
                applied r payload)"
  using assms(1)
  by (simp add: update_course_def commit_update_keyless [OF assms(3)]
      setattrs_drop_none [OF assms(2)])

lemma update_master_keyless:
  assumes "masters d k = Some r" and "distinct (map fst payload)"
    and "''LID'' \<notin> fst ` set payload"
  shows "update_master d k payload =
           Inr (d\<lparr>masters := (masters d)(k \<mapsto> applied r payload |` set master_columns)\<rparr>,
                applied r payload)"
  using assms(1)
  by (simp add: update_master_def commit_update_keyless [OF assms(3)]
      setattrs_drop_none [OF assms(2)])

lemma applied_keeps_absent_and_null:
  "map_of payload f = None \<or> map_of payload f = Some PyNone \<Longrightarrow> applied r payload f = r f"
  by (auto simp: applied_def)

lemma null_item_is_dropped:
  "update_student d k payload = update_student d k (drop_none payload)"
  "update_course d k payload = update_course d k (drop_none payload)"
  "update_master d k payload = update_master d k (drop_none payload)"
  unfolding update_student_def update_course_def update_master_def drop_none_idem
  by (rule refl)+

lemma update_course_moves_row:
  assumes "lessons d k = Some r" and "lessons d k' = None"
  shows "update_course d k [(''CID'', PyInt k')] =
           Inr (d\<lparr>lessons := ((lessons d)(k := None))(k' \<mapsto> r(''CID'' \<mapsto> PyInt k') |` set lesson_columns)\<rparr>,
                r(''CID'' \<mapsto> PyInt k'))"
  using assms
  by (simp add: update_course_def commit_update_def new_key_def drop_none_def setattrs_def)

lemma update_course_key_taken:
  assumes "lessons d k = Some r" and "lessons d k' = Some r'" and "k' \<noteq> k"
  shows "update_course d k [(''CID'', PyInt k')] = Inl IntegrityError"
  using assms
  by (simp add: update_course_def commit_update_def new_key_def drop_none_def setattrs_def)

section \<open>Substrings, membership loops and the keys of the error dictionary\<close>

lemma take_is_prefix: "take (length a) s = a \<longleftrightarrow> (\<exists>ss. s = a @ ss)"
proof
  assume "take (length a) s = a"
  then have "s = a @ drop (length a) s" by (metis append_take_drop_id)
  then show "\<exists>ss. s = a @ ss" ..
next
  assume "\<exists>ss. s = a @ ss"
  then show "take (length a) s = a" by auto
qed

lemma py_in_iff: "py_in a s \<longleftrightarrow> (\<exists>ps ss. s = ps @ a @ ss)"
proof (induction s)
  case Nil
  then show ?case by auto
next
  case (Cons y ys)
  show ?case
  proof
    assume "py_in a (y # ys)"
    then consider "take (length a) (y # ys) = a" | "py_in a ys" by auto
    then show "\<exists>ps ss. y # ys = ps @ a @ ss"
    proof cases
      case 1
      then obtain ss where "y # ys = a @ ss" unfolding take_is_prefix by blast
      then have "y # ys = [] @ a @ ss" by simp
      then show ?thesis by blast
    next
      case 2
      then obtain ps ss where "ys = ps @ a @ ss" using Cons.IH by blast
      then have "y # ys = (y # ps) @ a @ ss" by simp
      then show ?thesis by blast
    qed
  next
    assume "\<exists>ps ss. y # ys = ps @ a @ ss"
    then obtain ps ss where e: "y # ys = ps @ a @ ss" by blast
    show "py_in a (y # ys)"
    proof (cases ps)
      case Nil
      with e have "take (length a) (y # ys) = a" unfolding take_is_prefix by auto
      then show ?thesis by simp
    next
      case (Cons p ps')
      with e have "ys = ps' @ a @ ss" by simp
      then have "py_in a ys" using Cons.IH by blast
      then show ?thesis by simp
    qed
  qed
qed

lemma value_in_name_iff:
  "value_in_name names n = (if \<exists>t \<in> set names. py_in n t then PyBool True else PyNone)"
  by (induction names) auto

lemma name_in_value_iff:
  "name_in_value names n = (if \<exists>t \<in> set names. py_in t n then PyBool True else PyNone)"
  by (induction names) auto

lemma keys_update: "fst ` set (AList.update k m e) = insert k (fst ` set e)"
proof -
  have "set (map fst (AList.update k m e)) = insert k (set (map fst e))"
    by (auto simp: update_keys)
  then show ?thesis by simp
qed

lemma keys_set_if:
  "fst ` set (set_if f k m e) = (if f then insert k (fst ` set e) else fst ` set e)"
  by (simp add: set_if_def keys_update)

lemma keys_apply_rules:
  "fst ` set (apply_rules rules e) =
     fst ` set e \<union> {k. \<exists>m. (True, k, m) \<in> set rules}"
proof (induction rules arbitrary: e)
  case Nil
  then show ?case by (simp add: apply_rules_def)
next
  case (Cons r rules)
  obtain f k m where r: "r = (f, k, m)" by (cases r) auto
  have step: "apply_rules (r # rules) e = apply_rules rules (set_if f k m e)"
    by (simp add: apply_rules_def r)
  show ?case unfolding step Cons.IH keys_set_if using r by auto
qed

lemma apply_rules_empty_iff:
  "apply_rules rules [] = [] \<longleftrightarrow> (\<forall>r \<in> set rules. \<not> fst r)"
proof -
  have "apply_rules rules [] = [] \<longleftrightarrow> fst ` set (apply_rules rules []) = {}" by simp
  also have "\<dots> \<longleftrightarrow> (\<forall>r \<in> set rules. \<not> fst r)"
    unfolding keys_apply_rules by force
  finally show ?thesis .
qed

section \<open>What the validators return\<close>

lemma membership_validators_never_return_False:
  "is_center ev n \<noteq> PyBool False" "is_cities ev n \<noteq> PyBool False"
  "college_trust n \<noteq> PyBool False" "trust ev n \<noteq> PyBool False"
  by (simp_all add: is_center_def is_cities_def college_trust_def trust_def
      value_in_name_iff name_in_value_iff)

lemma str_int_neg_1234567: "str_int (- 1234567) = ''-1234567''"
  by (simp add: str_int_def digits_of.simps digit_char_def)

text \<open>
  Claim C2. The validators are functions of their argument (and of the reference data),
  so they are deterministic, and \<open>check_shamsi\<close>, \<open>check_farsi_name\<close> return a boolean.
  But \<open>is_center\<close>, \<open>is_cities\<close>, \<open>college_trust\<close> and \<open>trust\<close> return \<open>None\<close>, never
  \<open>False\<close>, for a value they do not accept, and \<open>validate_national_id\<close> raises
  \<open>IndexError\<close> on the invalid identifier \<open>-1234567\<close>.
\<close>

theorem invalid_values_give_None_or_raise:
  "college_trust [97, 98, 99] = PyNone
   \<and> is_center \<lparr>iran_provinces = [], province = [], engineering_fields = [],
        strptime_ok = (\<lambda>s. False), re_digit = ascii_digit, re_word = ascii_digit\<rparr> [97, 98, 99] = PyNone
   \<and> validate_national_id (- 1234567) = Inl IndexError"
  by (simp add: college_trust_def lst_college_def is_center_def validate_national_id_def
      str_int_neg_1234567 coefficients_def getitem_def)

section \<open>The department rule\<close>

text \<open>
  Claim C10. \<open>college_trust\<close> tests \<open>n in lst\<close> for each trusted name: it is true exactly
  when the candidate is a contiguous part of a trusted name. The empty string is accepted,
  and a department that is such a fragment produces no \<open>Department\<close> error in the create
  handlers of courses and instructors.
\<close>

theorem college_trust_accepts_fragments:
  "college_trust n =
     (if \<exists>t \<in> set lst_college. \<exists>ps ss. t = ps @ n @ ss then PyBool True else PyNone)
   \<and> truthy (college_trust [])
   \<and> ((\<exists>t \<in> set lst_college. \<exists>ps ss. t = ps @ LDepartment ln @ ss)
        \<longrightarrow> ''Department'' \<notin> fst ` set (apply_rules (course_rules ln) []))
   \<and> ((\<exists>t \<in> set lst_college. \<exists>ps ss. t = ps @ MDepartment mr @ ss)
        \<longrightarrow> ''Department'' \<notin> fst ` set (apply_rules (master_rules ev mr id_ok) []))"
proof (intro conjI impI)
  show "college_trust n =
     (if \<exists>t \<in> set lst_college. \<exists>ps ss. t = ps @ n @ ss then PyBool True else PyNone)"
    by (simp add: college_trust_def value_in_name_iff py_in_iff)
  show "truthy (college_trust [])"
    by (simp add: college_trust_def lst_college_def)
next
  assume "\<exists>t \<in> set lst_college. \<exists>ps ss. t = ps @ LDepartment ln @ ss"
  then have "truthy (college_trust (LDepartment ln))"
    by (simp add: college_trust_def value_in_name_iff py_in_iff)
  then show "''Department'' \<notin> fst ` set (apply_rules (course_rules ln) [])"
    by (simp add: keys_apply_rules course_rules_def)
next
  assume "\<exists>t \<in> set lst_college. \<exists>ps ss. t = ps @ MDepartment mr @ ss"
  then have "truthy (college_trust (MDepartment mr))"
    by (simp add: college_trust_def value_in_name_iff py_in_iff)
  then show "''Department'' \<notin> fst ` set (apply_rules (master_rules ev mr id_ok) [])"
    by (simp add: keys_apply_rules master_rules_def)
qed


theorem college_trust_fragment_example:
  "college_trust [1593, 1604] = PyBool True
   \<and> ''Department'' \<notin> fst ` set (apply_rules (course_rules
        \<lparr>CID = 12345, CName = [1585, 1740, 1575, 1590, 1740], LDepartment = [1593, 1604],
         Credit = [51]\<rparr>) [])"
proof -
  let ?ln = "\<lparr>CID = 12345, CName = [1585, 1740, 1575, 1590, 1740], LDepartment = [1593, 1604],
         Credit = [51]\<rparr>"
  have "py_in [1593, 1604] [1593, 1604, 1608, 1605, 32, 1662, 1575, 1740, 1607]" by simp
  then have "\<exists>ps ss. [1593, 1604, 1608, 1605, 32, 1662, 1575, 1740, 1607] = ps @ [1593, 1604 :: nat] @ ss"
    by (simp only: py_in_iff)
  moreover have "[1593, 1604, 1608, 1605, 32, 1662, 1575, 1740, 1607] \<in> set lst_college"
    by (simp add: lst_college_def)
  ultimately have frag: "\<exists>t \<in> set lst_college. \<exists>ps ss. t = ps @ [1593, 1604] @ ss" by blast
  then have frag': "\<exists>t \<in> set lst_college. \<exists>ps ss. t = ps @ LDepartment ?ln @ ss" by simp
  from college_trust_accepts_fragments [of "[1593, 1604]" ?ln] frag frag'
  show ?thesis by simp
qed

section \<open>The example payloads pass every rule\<close>

lemma str_int_12345: "str_int 12345 = ''12345''"
  by (simp add: str_int_def digits_of.simps digit_char_def)

lemma str_int_stid: "str_int 40211415001 = ''40211415001''"
  by (simp add: str_int_def digits_of.simps digit_char_def)

lemma str_int_id: "str_int 1234567891 = ''1234567891''"
  by (simp add: str_int_def digits_of.simps digit_char_def)

lemma demo_id_ok: "validate_national_id 1234567891 = Inr True"
  by (simp add: validate_national_id_def str_int_id coefficients_def getitem_def int_of_char_def)

lemma credit_rule_iff: "re_match credit_pattern s \<longleftrightarrow> s \<noteq> [] \<and> in_range 49 53 (hd s)"
  by (cases s) (simp_all add: re_match_def credit_pattern_def)

lemma demo_lesson_rules: "apply_rules (course_rules demo_lesson) [] = []"
  by (simp add: apply_rules_empty_iff course_rules_def demo_lesson_def str_int_12345
      check_farsi_name_iff farsi_class_def in_range_def college_trust_def lst_college_def
      credit_rule_iff)


lemma times_numeral: "times (numeral k) a = Cat a (times (pred_numeral k) a)"
  by (simp add: numeral_eq_Suc)

lemma demo_idx: "py_int (take 2 (drop 9 ''40211415001'')) = Inr 1"
  by (simp add: py_int_def int_of_char_def)

lemma stid_asc: "asc ''40211415001'' = [52, 48, 50, 49, 49, 52, 49, 53, 48, 48, 49]"
  by (simp add: asc_def)

lemma demo_year: "re_match year_pattern (asc ''40211415001'')"
  by (simp add: re_match_def year_pattern_def asc_def)

lemma demo_fixed: "re_match fixed_pattern (asc ''40211415001'')"
  by (simp add: re_match_def fixed_pattern_def asc_def times_numeral not_newline_def)

lemma demo_ids: "re_match ids_pattern [1575, 1604, 1601, 47, 49, 50, 32, 49, 50, 51, 52, 53, 54]"
  by (simp add: re_match_def ids_pattern_def times_numeral ascii_digit_def is_space_def in_range_def)

lemma demo_phone: "re_match (phone_pattern demo_env) (asc ''09123456789'')"
  by (simp add: re_match_def phone_pattern_def demo_env_def asc_def times_numeral
      ascii_digit_def in_range_def latin_letter_def)

lemma demo_landline: "re_match landline_pattern (asc ''06612345678'')"
  by (simp add: re_match_def landline_pattern_def asc_def)

lemma demo_names:
  "check_farsi_name [1593, 1604, 1740]" "check_farsi_name [1585, 1590, 1575, 1740, 1740]"
  "check_farsi_name [1581, 1587, 1606]" "check_farsi_name [1578, 1607, 1585, 1575, 1606]"
  by (simp_all add: check_farsi_name_iff farsi_class_def in_range_def)

lemma demo_city: "truthy (is_cities demo_env [1578, 1607, 1585, 1575, 1606])"
  by (simp add: is_cities_def demo_env_def)

lemma demo_major: "truthy (trust demo_env [1576, 1585, 1602])"
  by (simp add: trust_def demo_env_def)

lemma demo_department: "truthy (college_trust [1593, 1604, 1608, 1605, 32, 1662, 1575, 1740, 1607])"
  by (simp add: college_trust_def lst_college_def)

lemma length_asc: "length (asc s) = length s"
  by (simp add: asc_def)

lemma demo_birth: "check_shamsi demo_env (asc ''1380/01/01'')"
  by (simp add: check_shamsi_def demo_env_def)

lemma demo_student_rules: "apply_rules (student_rules demo_env demo_student 1 True) [] = []"
  using demo_year demo_fixed demo_ids demo_phone demo_landline demo_names demo_city demo_major
    demo_department demo_birth
  by (simp add: apply_rules_empty_iff student_rules_def demo_student_def str_int_stid str_int_id
      length_asc)

section \<open>What the create handlers return\<close>

lemma lesson_dump_no_none: "\<not> has_none (lesson_dump ln)"
  by (simp add: has_none_def lesson_dump_def)

lemma student_dump_none_iff:
  "has_none (student_dump u) \<longleftrightarrow> SCourseIDs u = None \<or> LIDs u = None"
  by (auto simp: has_none_def student_dump_def opt_list_def split: option.splits)

lemma master_dump_none_iff: "has_none (master_dump m) \<longleftrightarrow> LCourseIDs m = None"
  by (auto simp: has_none_def master_dump_def opt_list_def split: option.splits)

lemma course_result:
  "course d ln =
     (case lessons d (CID ln) of
        Some r \<Rightarrow>
          Inl (HTTPException 400 (Msg (asc ''courseID already exists ,courseID must be unique'')))
      | None \<Rightarrow>
          if apply_rules (course_rules ln) [] \<noteq> []
          then Inl (validation_error (apply_rules (course_rules ln) []))
          else Inr (d\<lparr>lessons := (lessons d)(CID ln \<mapsto> map_of (lesson_dump ln))\<rparr>,
                    map_of (lesson_dump ln)))"
  by (simp add: course_def create_lesson_def lesson_dump_no_none Let_def split: option.splits)

lemma keys_lesson_refs:
  "fst ` set (lesson_refs d k cs e) =
     fst ` set e \<union> (if list_ex (\<lambda>c. lessons d c = None) cs then {k} else {})"
  by (induction cs arbitrary: e) (auto simp: keys_set_if)

lemma keys_master_refs:
  "fst ` set (master_refs d k ms e) =
     fst ` set e \<union> (if list_ex (\<lambda>m. masters d m = None) ms then {k} else {})"
  by (induction ms arbitrary: e) (auto simp: keys_set_if)

lemma empty_keys: "e = [] \<longleftrightarrow> fst ` set e = {}"
  by simp

lemma refs_empty_iff:
  "master_refs d k' ms (lesson_refs d k cs []) = [] \<longleftrightarrow>
     list_all (\<lambda>c. lessons d c \<noteq> None) cs \<and> list_all (\<lambda>m. masters d m \<noteq> None) ms"
  unfolding empty_keys [of "master_refs d k' ms (lesson_refs d k cs [])"]
    keys_master_refs keys_lesson_refs
  by (auto simp: list_all_iff list_ex_iff)







section \<open>A course and a student enrolled in it\<close>

lemma create_std_accepts:
  assumes "SCourseIDs u = Some cs" and "LIDs u = Some ms" and "students d (STID u) = None"
    and "(if length (str_int (STID u)) = 11
          then py_int (take 2 (drop 9 (str_int (STID u)))) else Inr 0) = Inr idx"
    and "validate_national_id (ID u) = Inr id_ok"
    and "list_all (\<lambda>c. lessons d c \<noteq> None) cs" and "list_all (\<lambda>m. masters d m \<noteq> None) ms"
    and "apply_rules (student_rules ev u idx id_ok) [] = []"
  shows "create_std ev d u =
           Inr (d\<lparr>students := (students d)(STID u \<mapsto> map_of (student_dump u))\<rparr>,
                map_of (student_dump u))"
proof -
  have "master_refs d ''LID'' ms (lesson_refs d ''Lcourse'' cs []) = []"
    using assms(6,7) by (simp only: refs_empty_iff)
  then show ?thesis
    using assms(1-5,8)
    by (simp add: create_std_def create_student_def student_dump_none_iff Let_def)
qed

lemma demo_run_two:
  "run demo_env [CreateCourse demo_lesson, CreateStudent demo_student] empty_db =
     empty_db\<lparr>lessons := [12345 \<mapsto> map_of (lesson_dump demo_lesson)],
              students := [40211415001 \<mapsto> map_of (student_dump demo_student)]\<rparr>"
proof -
  let ?d1 = "empty_db\<lparr>lessons := [12345 \<mapsto> map_of (lesson_dump demo_lesson)]\<rparr>"
  have cid: "CID demo_lesson = 12345" by (simp add: demo_lesson_def)
  have c: "course empty_db demo_lesson = Inr (?d1, map_of (lesson_dump demo_lesson))"
    by (simp add: course_result demo_lesson_rules) (simp add: empty_db_def cid)
  have s: "create_std demo_env ?d1 demo_student =
      Inr (?d1\<lparr>students := (students ?d1)(STID demo_student \<mapsto> map_of (student_dump demo_student))\<rparr>,
           map_of (student_dump demo_student))"
  proof (rule create_std_accepts [where cs = "[12345]" and ms = "[]" and idx = 1 and id_ok = True])
    show "apply_rules (student_rules demo_env demo_student 1 True) [] = []"
      by (rule demo_student_rules)
    show "validate_national_id (ID demo_student) = Inr True"
      by (simp add: demo_student_def demo_id_ok)
    show "(if length (str_int (STID demo_student)) = 11
          then py_int (take 2 (drop 9 (str_int (STID demo_student)))) else Inr 0) = Inr 1"
      by (simp add: demo_student_def str_int_stid py_int_def int_of_char_def)
  qed (simp_all add: demo_student_def empty_db_def)
  have stid: "STID demo_student = 40211415001" by (simp add: demo_student_def)
  show ?thesis
    by (simp add: run_def store_after_def c s stid) (simp add: empty_db_def)
qed

section \<open>The aggregate validation error\<close>

lemma create_std_null_list:
  "SCourseIDs u = None \<or> LIDs u = None \<Longrightarrow> create_std ev d u = Inl TypeError"
  by (auto simp: create_std_def split: option.splits)

lemma rejected_rules:
  "apply_rules (student_rules demo_env rejected_student 1 True) [] =
     [(''name'', asc ''All letters must be Farsi or Do not contain special symbols or numbers''),
      (''postal_code'', asc ''postal code is invalued''),
      (''marital'', asc ''is marital status is wrong value'')]"
proof -
  have ali: "\<not> check_farsi_name (asc ''Ali'')"
    by (simp add: check_farsi_name_iff asc_def farsi_class_def is_space_def in_range_def)
  have pc: "str_int 123 = ''123''"
    by (simp add: str_int_def digits_of.simps digit_char_def)
  have m: "asc ''single'' \<noteq> [1605, 1578, 1575, 1607, 1604]" "asc ''single'' \<noteq> [1605, 1580, 1585, 1583]"
    by (simp_all add: asc_def)
  show ?thesis
    using demo_year demo_fixed demo_ids demo_phone demo_landline demo_names demo_city demo_major
      demo_department demo_birth ali m
    by (simp add: apply_rules_def set_if_def student_rules_def rejected_student_def
        demo_student_def str_int_stid pc length_asc)
qed


lemma course_reports_every_failed_rule:
  assumes "lessons d (CID ln) = None" and "(True, k, m) \<in> set (course_rules ln)"
  shows "course d ln = Inl (validation_error (apply_rules (course_rules ln) []))"
    and "k \<in> fst ` set (apply_rules (course_rules ln) [])"
proof -
  show k: "k \<in> fst ` set (apply_rules (course_rules ln) [])"
    unfolding keys_apply_rules using assms(2) by auto
  then have "apply_rules (course_rules ln) [] \<noteq> []" by auto
  with assms(1) show "course d ln = Inl (validation_error (apply_rules (course_rules ln) []))"
    by (simp add: course_result)
qed

lemma create_std_rejects:
  assumes "SCourseIDs u = Some cs" and "LIDs u = Some ms" and "students d (STID u) = None"
    and "(if length (str_int (STID u)) = 11
          then py_int (take 2 (drop 9 (str_int (STID u)))) else Inr 0) = Inr idx"
    and "validate_national_id (ID u) = Inr id_ok"
    and "apply_rules (student_rules ev u idx id_ok)
           (master_refs d ''LID'' ms (lesson_refs d ''Lcourse'' cs [])) \<noteq> []"
  shows "create_std ev d u =
           Inl (validation_error (apply_rules (student_rules ev u idx id_ok)
                  (master_refs d ''LID'' ms (lesson_refs d ''Lcourse'' cs []))))"
  using assms by (simp add: create_std_def Let_def)

lemma create_std_reports_every_failed_rule:
  assumes "SCourseIDs u = Some cs" and "LIDs u = Some ms" and "students d (STID u) = None"
    and "(if length (str_int (STID u)) = 11
          then py_int (take 2 (drop 9 (str_int (STID u)))) else Inr 0) = Inr idx"
    and "validate_national_id (ID u) = Inr id_ok"
    and "(True, k, m) \<in> set (student_rules ev u idx id_ok)"
  shows "create_std ev d u =
           Inl (validation_error (apply_rules (student_rules ev u idx id_ok)
                  (master_refs d ''LID'' ms (lesson_refs d ''Lcourse'' cs []))))"
    and "k \<in> fst ` set (apply_rules (student_rules ev u idx id_ok)
                  (master_refs d ''LID'' ms (lesson_refs d ''Lcourse'' cs [])))"
proof -
  let ?e = "apply_rules (student_rules ev u idx id_ok)
              (master_refs d ''LID'' ms (lesson_refs d ''Lcourse'' cs []))"
  show k: "k \<in> fst ` set ?e" unfolding keys_apply_rules using assms(6) by auto
  then have "?e \<noteq> []" by auto
  with assms(1-5) show "create_std ev d u = Inl (validation_error ?e)"
    by (rule create_std_rejects)
qed

text \<open>
  Claim C4. With both identifier lists present, \<open>create_std\<close> answers the payload that
  breaks three rules with one validation error that names all three. The same payload
  with \<open>SCourseIDs\<close> null, which the schema allows, never reaches the rules: the
  first loop of the handler iterates \<open>None\<close> and raises \<open>TypeError\<close>.
\<close>

theorem null_course_list_preempts_aggregate_error:
  "create_std demo_env empty_db (rejected_student\<lparr>SCourseIDs := None\<rparr>) = Inl TypeError
   \<and> create_std demo_env empty_db (rejected_student\<lparr>SCourseIDs := Some []\<rparr>) =
       Inl (validation_error
         [(''name'', asc ''All letters must be Farsi or Do not contain special symbols or numbers''),
          (''postal_code'', asc ''postal code is invalued''),
          (''marital'', asc ''is marital status is wrong value'')])"
proof -
  have r: "student_rules demo_env (rejected_student\<lparr>SCourseIDs := Some []\<rparr>) 1 True =
      student_rules demo_env rejected_student 1 True"
    by (simp add: student_rules_def)
  have a: "create_std demo_env empty_db (rejected_student\<lparr>SCourseIDs := None\<rparr>) = Inl TypeError"
    by (rule create_std_null_list) simp
  have b: "create_std demo_env empty_db (rejected_student\<lparr>SCourseIDs := Some []\<rparr>) =
       Inl (validation_error (apply_rules (student_rules demo_env rejected_student 1 True) []))"
  proof -
    have "create_std demo_env empty_db (rejected_student\<lparr>SCourseIDs := Some []\<rparr>) =
       Inl (validation_error (apply_rules
         (student_rules demo_env (rejected_student\<lparr>SCourseIDs := Some []\<rparr>) 1 True)
         (master_refs empty_db ''LID'' [] (lesson_refs empty_db ''Lcourse'' [] []))))"
    proof (rule create_std_rejects)
      show "validate_national_id (ID (rejected_student\<lparr>SCourseIDs := Some []\<rparr>)) = Inr True"
        by (simp add: rejected_student_def demo_student_def demo_id_ok)
      show "(if length (str_int (STID (rejected_student\<lparr>SCourseIDs := Some []\<rparr>))) = 11
          then py_int (take 2 (drop 9 (str_int (STID (rejected_student\<lparr>SCourseIDs := Some []\<rparr>)))))
          else Inr 0) = Inr 1"
        by (simp add: rejected_student_def demo_student_def str_int_stid py_int_def int_of_char_def)
      show "apply_rules (student_rules demo_env (rejected_student\<lparr>SCourseIDs := Some []\<rparr>) 1 True)
           (master_refs empty_db ''LID'' [] (lesson_refs empty_db ''Lcourse'' [] [])) \<noteq> []"
        by (simp add: r rejected_rules)
    qed (simp_all add: rejected_student_def demo_student_def empty_db_def)
    then show ?thesis by (simp add: r)
  qed
  show ?thesis using a b by (simp add: rejected_rules)
qed

section \<open>Creating an identifier that is already stored\<close>

lemma duplicate_course_rejected_first:
  "lessons d (CID ln) = Some r \<Longrightarrow>
     course d ln =
       Inl (HTTPException 400 (Msg (asc ''courseID already exists ,courseID must be unique'')))"
  by (simp add: course_def)

lemma duplicate_master_rejected_first:
  "masters d (LID mr) = Some r \<Longrightarrow>
     master ev d mr =
       Inl (HTTPException 400
              (Msg (asc ''This teacher exists with the number '' @ asc (str_int (LID mr)))))"
  by (simp add: master_def)

lemma duplicate_student_rejected_alone:
  "students d (STID u) = Some r \<Longrightarrow> SCourseIDs u = Some cs \<Longrightarrow> LIDs u = Some ms \<Longrightarrow>
     create_std ev d u =
       Inl (HTTPException 400
              (Msg (asc ''studentID already exists ,studentID must be unique'')))"
  by (simp add: create_std_def)

text \<open>
  Claim C5. \<open>course\<close> and \<open>master\<close> look the identifier up first. \<open>create_std\<close> runs
  its two reference loops before the lookup: for a stored identifier it answers with the
  duplicate error alone when both lists are present, but with \<open>LIDs\<close> (or
  \<open>SCourseIDs\<close>) null the loop raises \<open>TypeError\<close> and the duplicate is not reported.
\<close>

theorem null_list_preempts_duplicate_error:
  "create_std demo_env
      (run demo_env [CreateCourse demo_lesson, CreateStudent demo_student] empty_db)
      (demo_student\<lparr>LIDs := None\<rparr>) = Inl TypeError
   \<and> create_std demo_env
      (run demo_env [CreateCourse demo_lesson, CreateStudent demo_student] empty_db)
      demo_student =
        Inl (HTTPException 400
               (Msg (asc ''studentID already exists ,studentID must be unique'')))"
proof -
  let ?d = "run demo_env [CreateCourse demo_lesson, CreateStudent demo_student] empty_db"
  have "students ?d (STID demo_student) = Some (map_of (student_dump demo_student))"
    unfolding demo_run_two by (simp add: empty_db_def demo_student_def)
  moreover have "SCourseIDs demo_student = Some [12345]" "LIDs demo_student = Some []"
    by (simp_all add: demo_student_def)
  ultimately have "create_std demo_env ?d demo_student =
        Inl (HTTPException 400
               (Msg (asc ''studentID already exists ,studentID must be unique'')))"
    by (rule duplicate_student_rejected_alone)
  moreover have "create_std demo_env ?d (demo_student\<lparr>LIDs := None\<rparr>) = Inl TypeError"
    by (rule create_std_null_list) simp
  ultimately show ?thesis by simp
qed

section \<open>The credit rule\<close>

lemma credit_error_iff:
  "''credit'' \<in> fst ` set (apply_rules (course_rules ln) []) \<longleftrightarrow>
     Credit ln = [] \<or> \<not> in_range 49 53 (hd (Credit ln))"
  by (auto simp: keys_apply_rules course_rules_def credit_rule_iff)

lemma credit_one_to_four_accepted:
  "Credit ln \<in> {[49], [50], [51], [52]} \<Longrightarrow>
     ''credit'' \<notin> fst ` set (apply_rules (course_rules ln) [])"
  by (auto simp: credit_error_iff in_range_def)

text \<open>
  Claim C9. The credit rule is \<open>re.match(r"[1-5]", ln.Credit)\<close>: it looks at the first
  character only and admits 5. A course with credit \<open>"5"\<close> is created, and \<open>"19"\<close>
  raises no credit error, although the message of the rule says the number of units must
  be between 1 and 4. (Credits \<open>"1"\<close> to \<open>"4"\<close> raise none, \<open>"0"\<close> and \<open>"6"\<close> do.)
\<close>

theorem credit_five_is_accepted:
  "course empty_db (demo_lesson\<lparr>Credit := [53]\<rparr>) =
     Inr (empty_db\<lparr>lessons := [12345 \<mapsto> map_of (lesson_dump (demo_lesson\<lparr>Credit := [53]\<rparr>))]\<rparr>,
          map_of (lesson_dump (demo_lesson\<lparr>Credit := [53]\<rparr>)))
   \<and> ''credit'' \<notin> fst ` set (apply_rules (course_rules (demo_lesson\<lparr>Credit := [49, 57]\<rparr>)) [])
   \<and> ''credit'' \<in> fst ` set (apply_rules (course_rules (demo_lesson\<lparr>Credit := [54]\<rparr>)) [])
   \<and> ''credit'' \<in> fst ` set (apply_rules (course_rules (demo_lesson\<lparr>Credit := [48]\<rparr>)) [])"
proof -
  have rules: "apply_rules (course_rules (demo_lesson\<lparr>Credit := [53]\<rparr>)) [] = []"
    using demo_department demo_names
    by (simp add: apply_rules_empty_iff course_rules_def demo_lesson_def str_int_12345
        check_farsi_name_iff farsi_class_def in_range_def credit_rule_iff)
  have "course empty_db (demo_lesson\<lparr>Credit := [53]\<rparr>) =
     Inr (empty_db\<lparr>lessons := [12345 \<mapsto> map_of (lesson_dump (demo_lesson\<lparr>Credit := [53]\<rparr>))]\<rparr>,
          map_of (lesson_dump (demo_lesson\<lparr>Credit := [53]\<rparr>)))"
    by (simp add: course_result rules) (simp add: empty_db_def demo_lesson_def)
  then show ?thesis by (simp add: credit_error_iff in_range_def)
qed

section \<open>The update routes\<close>

lemma dump_field_other_key: "pk \<noteq> k \<Longrightarrow> pk \<notin> fst ` set (dump_field k f v)"
  by (cases v) (simp_all add: dump_field_def)

lemma lesson_update_dump_no_key: "''CID'' \<notin> fst ` set (lesson_update_dump ln)"
  by (simp add: lesson_update_dump_def image_Un dump_field_other_key)

lemma master_update_dump_no_key: "''LID'' \<notin> fst ` set (master_update_dump mr)"
  by (simp add: master_update_dump_def image_Un dump_field_other_key)

lemma update_dump_no_key: "''STID'' \<notin> fst ` set (update_dump su)"
  by (simp add: update_dump_def image_Un dump_field_other_key)

lemma update_course_route_payload:
  assumes "lessons d k = Some r"
  shows "update_course d k (lesson_update_dump ln) =
           Inr (d\<lparr>lessons := (lessons d)(k \<mapsto>
                    setattrs r (drop_none (lesson_update_dump ln)) |` set lesson_columns)\<rparr>,
                setattrs r (drop_none (lesson_update_dump ln)))"
  using assms
  by (simp add: update_course_def commit_update_keyless [OF lesson_update_dump_no_key])

lemma update_master_route_payload:
  assumes "masters d k = Some r"
  shows "update_master d k (master_update_dump mr) =
           Inr (d\<lparr>masters := (masters d)(k \<mapsto>
                    setattrs r (drop_none (master_update_dump mr)) |` set master_columns)\<rparr>,
                setattrs r (drop_none (master_update_dump mr)))"
  using assms
  by (simp add: update_master_def commit_update_keyless [OF master_update_dump_no_key])

lemma update_student_route_payload:
  assumes "students d k = Some r"
  shows "update_student d k (update_dump su) =
           Inr (d\<lparr>students := (students d)(k \<mapsto>
                    setattrs r (drop_none (update_dump su)) |` set student_columns)\<rparr>,
                setattrs r (drop_none (update_dump su)))"
  using assms
  by (simp add: update_student_def commit_update_keyless [OF update_dump_no_key])

lemma upt_cour_success:
  assumes "upt_cour d k ln = Inr (d', r')"
  shows "\<exists>r. lessons d k = Some r \<and> r' = setattrs r (drop_none (lesson_update_dump ln))
           \<and> d' = d\<lparr>lessons := (lessons d)(k \<mapsto> r' |` set lesson_columns)\<rparr>"
proof -
  from assms obtain r where r: "lessons d k = Some r"
    by (cases "lessons d k") (simp_all add: upt_cour_def)
  from assms r have "update_course d k (lesson_update_dump ln) = Inr (d', r')"
    by (simp add: upt_cour_def split: sum.splits if_splits)
  with r show ?thesis by (auto simp: update_course_route_payload [OF r])
qed

lemma upd_mas_success:
  assumes "upd_mas ev d k mr = Inr (d', r')"
  shows "\<exists>r. masters d k = Some r \<and> r' = setattrs r (drop_none (master_update_dump mr))
           \<and> d' = d\<lparr>masters := (masters d)(k \<mapsto> r' |` set master_columns)\<rparr>"
proof -
  from assms obtain r where r: "masters d k = Some r"
    by (cases "masters d k") (simp_all add: upd_mas_def)
  from assms r have "update_master d k (master_update_dump mr) = Inr (d', r')"
    by (simp add: upd_mas_def Let_def split: sum.splits if_splits)
  with r show ?thesis by (auto simp: update_master_route_payload [OF r])
qed

lemma update_std_success:
  assumes "update_std ev d k su = Inr (d', r')"
  shows "\<exists>r. students d k = Some r \<and> r' = setattrs r (drop_none (update_dump su))
           \<and> d' = d\<lparr>students := (students d)(k \<mapsto> r' |` set student_columns)\<rparr>"
proof -
  from assms have u: "update_student d k (update_dump su) = Inr (d', r')"
    by (simp add: update_std_def Let_def split: sum.splits if_splits)
  then obtain r where r: "students d k = Some r"
    by (cases "students d k") (simp_all add: update_student_def)
  with u show ?thesis by (auto simp: update_student_route_payload [OF r])
qed


lemma dump_field_keys: "map fst (dump_field k f v) = (if v \<noteq> Unset then [k] else [])"
  by (cases v) (simp_all add: dump_field_def)

lemma optional_keys_subset:
  "set (concat (map (\<lambda>kb. if snd kb then [fst kb] else []) kbs)) \<subseteq> fst ` set kbs"
  by (induction kbs) auto

lemma distinct_optional_keys:
  "distinct (map fst kbs) \<Longrightarrow>
     distinct (concat (map (\<lambda>kb. if snd kb then [fst kb] else []) kbs))"
proof (induction kbs)
  case Nil
  then show ?case by simp
next
  case (Cons kb kbs)
  then have "fst kb \<notin> fst ` set kbs" by simp
  then have "fst kb \<notin> set (concat (map (\<lambda>kb. if snd kb then [fst kb] else []) kbs))"
    using optional_keys_subset [of kbs] by blast
  with Cons show ?case by simp
qed

lemma lesson_update_dump_distinct: "distinct (map fst (lesson_update_dump ln))"
proof -
  let ?kbs = "[(''CName'', UCName ln \<noteq> Unset), (''Department'', ULDepartment ln \<noteq> Unset),
         (''Credit'', UCredit ln \<noteq> Unset)]"
  have eq: "map fst (lesson_update_dump ln) =
      concat (map (\<lambda>kb. if snd kb then [fst kb] else []) ?kbs)"
    unfolding lesson_update_dump_def map_append dump_field_keys
    by (simp only: concat.simps list.map fst_conv snd_conv if_True append.simps append_Nil2
        cong: if_cong)
  have d: "distinct (map fst ?kbs)" by simp
  show ?thesis unfolding eq by (rule distinct_optional_keys [OF d])
qed

lemma update_dump_distinct: "distinct (map fst (update_dump su))"
proof -
  let ?kbs = "[(''FName'', UFName su \<noteq> Unset), (''LName'', ULName su \<noteq> Unset),
         (''Father'', UFather su \<noteq> Unset), (''Birth'', UBirth su \<noteq> Unset),
         (''IDS'', UIDS su \<noteq> Unset), (''BornCity'', UBornCity su \<noteq> Unset),
         (''Address'', UAddress su \<noteq> Unset), (''PostalCode'', UPostalCode su \<noteq> Unset),
         (''CPhone'', UCPhone su \<noteq> Unset), (''HPhone'', UHPhone su \<noteq> Unset),
         (''Department'', UDepartment su \<noteq> Unset), (''Major'', UMajor su \<noteq> Unset),
         (''Married'', UMarried su \<noteq> Unset), (''ID'', UID su \<noteq> Unset),
         (''SCourseIDs'', True), (''LIDs'', True)]"
  have eq: "map fst (update_dump su) = concat (map (\<lambda>kb. if snd kb then [fst kb] else []) ?kbs)"
    unfolding update_dump_def map_append dump_field_keys
    by (simp only: concat.simps list.map fst_conv snd_conv if_True append.simps append_Nil2
        cong: if_cong)
  have d: "distinct (map fst ?kbs)" by simp
  show ?thesis unfolding eq by (rule distinct_optional_keys [OF d])
qed

lemma master_update_dump_distinct: "distinct (map fst (master_update_dump mr))"
proof -
  let ?kbs = "[(''FName'', UMFName mr \<noteq> Unset), (''LName'', UMLName mr \<noteq> Unset),
         (''ID'', UMID mr \<noteq> Unset), (''Department'', UMDepartment mr \<noteq> Unset),
         (''Major'', UMMajor mr \<noteq> Unset), (''Birth'', UMBirth mr \<noteq> Unset),
         (''BornCity'', UMBornCity mr \<noteq> Unset), (''Address'', UMAddress mr \<noteq> Unset),
         (''PostalCode'', UMPostalCode mr \<noteq> Unset), (''CPhone'', UMCPhone mr \<noteq> Unset),
         (''HPhone'', UMHPhone mr \<noteq> Unset), (''LCourseIDs'', ULCourseIDs mr \<noteq> Unset)]"
  have eq: "map fst (master_update_dump mr) =
      concat (map (\<lambda>kb. if snd kb then [fst kb] else []) ?kbs)"
    unfolding master_update_dump_def map_append dump_field_keys
    by (simp only: concat.simps list.map fst_conv snd_conv if_True append.simps append_Nil2
        cong: if_cong)
  have d: "distinct (map fst ?kbs)" by simp
  show ?thesis unfolding eq by (rule distinct_optional_keys [OF d])
qed

text \<open>
  Through the three update routes a stored attribute changes only to a value the payload
  sends for it: a request that succeeds stores the row with the non-null items applied,
  and a request that fails stores nothing.
\<close>

lemma update_routes_apply_only_given_values:
  "upt_cour d k ln = Inr (d', r') \<Longrightarrow>
     \<exists>r. lessons d k = Some r \<and> r' = applied r (lesson_update_dump ln)
         \<and> d' = d\<lparr>lessons := (lessons d)(k \<mapsto> r' |` set lesson_columns)\<rparr>"
  "upd_mas ev d k mr = Inr (d', r') \<Longrightarrow>
     \<exists>r. masters d k = Some r \<and> r' = applied r (master_update_dump mr)
         \<and> d' = d\<lparr>masters := (masters d)(k \<mapsto> r' |` set master_columns)\<rparr>"
  "update_std ev d k su = Inr (d', r') \<Longrightarrow>
     \<exists>r. students d k = Some r \<and> r' = applied r (update_dump su)
         \<and> d' = d\<lparr>students := (students d)(k \<mapsto> r' |` set student_columns)\<rparr>"
  using upt_cour_success [of d k ln d' r'] upd_mas_success [of ev d k mr d' r']
    update_std_success [of ev d k su d' r']
  by (auto simp: setattrs_drop_none lesson_update_dump_distinct master_update_dump_distinct
      update_dump_distinct)

lemma update_dump_nonempty: "update_dump su \<noteq> []"
  by (simp add: update_dump_def)

lemma update_std_result:
  "update_std ev d k su =
     (case apply_rules_e (update_rules ev su) [] of
        Inl e \<Rightarrow> Inl e
      | Inr errors \<Rightarrow>
          if errors \<noteq> [] then Inl (validation_error errors)
          else update_student d k (update_dump su))"
  by (simp add: update_std_def update_dump_nonempty Let_def)

lemma enrol_unknown_rules: "apply_rules_e (update_rules ev enrol_unknown) [] = Inr []"
  by (simp add: update_rules_def field_rule_def enrol_unknown_def set_if_def)

section \<open>A null field in an update\<close>

lemma one_lesson_row:
  "lessons one_lesson_db 10001 = Some (map_of (lesson_dump
        \<lparr>CID = 10001, CName = [1585, 1740, 1575, 1590, 1740],
         LDepartment = [1593, 1604, 1608, 1605, 32, 1662, 1575, 1740, 1607], Credit = [51]\<rparr>))"
  by (simp add: one_lesson_db_def empty_db_def)

lemma null_course_name_request_raises: "upt_cour one_lesson_db 10001 null_name = Inl TypeError"
  by (simp add: upt_cour_def one_lesson_row course_update_rules_def field_rule_def null_name_def)

lemma omitted_course_name_request_succeeds:
  "\<exists>d r. upt_cour one_lesson_db 10001 no_name = Inr (d, r)
     \<and> r ''CName'' = Some (PyStr [1585, 1740, 1575, 1590, 1740])"
proof -
  have rules: "apply_rules_e (course_update_rules no_name) [] = Inr []"
    by (simp add: course_update_rules_def field_rule_def no_name_def credit_rule_iff in_range_def
        set_if_def)
  have dump: "lesson_update_dump no_name = [(''Credit'', PyStr [51])]"
    by (simp add: lesson_update_dump_def dump_field_def no_name_def)
  show ?thesis
    by (simp add: upt_cour_def one_lesson_row rules update_course_route_payload)
       (simp add: dump drop_none_def setattrs_def lesson_dump_def)
qed

lemma upt_cour_accepts_credit_five:
  "\<exists>d r. upt_cour one_lesson_db 10001 \<lparr>UCName = Unset, ULDepartment = Unset, UCredit = Given [53]\<rparr>
     = Inr (d, r) \<and> r ''Credit'' = Some (PyStr [53])"
proof -
  let ?ln = "\<lparr>UCName = Unset, ULDepartment = Unset, UCredit = Given [53]\<rparr>"
  have rules: "apply_rules_e (course_update_rules ?ln) [] = Inr []"
    by (simp add: course_update_rules_def field_rule_def credit_rule_iff in_range_def set_if_def)
  have dump: "lesson_update_dump ?ln = [(''Credit'', PyStr [53])]"
    by (simp add: lesson_update_dump_def dump_field_def)
  show ?thesis
    by (simp add: upt_cour_def one_lesson_row rules update_course_route_payload)
       (simp add: dump drop_none_def setattrs_def)
qed

text \<open>
  Claim C6. \<open>crud.update_course\<close> drops a null item, so for it a null name and an
  omitted name are the same request, and the stored name is never cleared. The route
  \<open>upt_cour\<close> does not get that far: its name rule evaluates \<open>len(ln.CName)\<close> on the null
  and raises \<open>TypeError\<close>, while the request without the name succeeds and keeps it.
\<close>

theorem null_name_is_not_treated_as_omitted:
  "upt_cour one_lesson_db 10001 null_name = Inl TypeError
   \<and> (\<exists>d r. upt_cour one_lesson_db 10001 no_name = Inr (d, r)
         \<and> r ''CName'' = Some (PyStr [1585, 1740, 1575, 1590, 1740]))
   \<and> update_course one_lesson_db 10001 (lesson_update_dump null_name) =
       update_course one_lesson_db 10001 (lesson_update_dump no_name)"
proof -
  have "drop_none (lesson_update_dump null_name) = drop_none (lesson_update_dump no_name)"
    by (simp add: lesson_update_dump_def dump_field_def null_name_def no_name_def drop_none_def)
  then have "update_course one_lesson_db 10001 (lesson_update_dump null_name) =
       update_course one_lesson_db 10001 (lesson_update_dump no_name)"
    using null_item_is_dropped(2) [of one_lesson_db 10001 "lesson_update_dump null_name"]
      null_item_is_dropped(2) [of one_lesson_db 10001 "lesson_update_dump no_name"]
    by simp
  with null_course_name_request_raises omitted_course_name_request_succeeds
  show ?thesis by blast
qed

section \<open>Identifiers that are not stored\<close>

lemma missing_identifier_is_reported:
  assumes "students d k = None" and "masters d k = None" and "lessons d k = None"
  shows "get_student d k = Inl (HTTPException 400 (Msg (asc ''student is not found'')))"
    and "get_msr d k = Inl (HTTPException 400 (Msg (asc ''master is not found'')))"
    and "get_lsn d k = Inl (HTTPException 400 (Msg (asc ''lesson is not found'')))"
    and "del_std d k = Inl (HTTPException 400 (Msg (asc ''student is not found'')))"
    and "del_msr d k = Inl (HTTPException 400 (Msg (asc ''master is not found'')))"
    and "del_lsn d k = Inl (HTTPException 400 (Msg (asc ''lesson is not found'')))"
    and "upt_cour d k ln = Inl (HTTPException 400 (Msg (asc ''CID is not found'')))"
    and "upd_mas ev d k mr = Inl (HTTPException 404 (Msg (asc ''There is no such master'')))"
    and "apply_rules_e (update_rules ev su) [] = Inr [] \<Longrightarrow>
           update_std ev d k su = Inl (HTTPException 400 (Msg (asc ''student is not found'')))"
    and "update_std ev d k su \<noteq> Inr res"
  using assms
  by (auto simp: get_student_def get_msr_def get_lsn_def del_std_def del_msr_def del_lsn_def
      upt_cour_def upd_mas_def update_std_result update_student_def split: sum.splits)

lemma latin_name_update_rules:
  "apply_rules_e (update_rules ev latin_name_update) [] =
     Inr [(''FName'', asc ''All letters must be Farsi or Do not contain special symbols or numbers'')]"
proof -
  have ali: "\<not> check_farsi_name (asc ''Ali'')"
    by (simp add: check_farsi_name_iff asc_def farsi_class_def is_space_def in_range_def)
  show ?thesis
    using ali
    by (simp add: update_rules_def field_rule_def latin_name_update_def enrol_unknown_def
        set_if_def length_asc)
qed

text \<open>
  Claim C7. Reading and deleting an identifier that is not stored, and the course and
  master updates, which look the row up first, answer with the not-found error. The
  student update looks the student up last, inside \<open>crud.update_student\<close>: a payload
  that breaks a rule is answered with the validation error, so the missing student is
  never reported; only a payload that passes every rule gets the not-found error.
\<close>

theorem update_of_missing_student_reports_validation_error:
  "students empty_db 40211415001 = None
   \<and> update_std demo_env empty_db 40211415001 latin_name_update =
       Inl (validation_error
         [(''FName'', asc ''All letters must be Farsi or Do not contain special symbols or numbers'')])
   \<and> update_std demo_env empty_db 40211415001 enrol_unknown =
       Inl (HTTPException 400 (Msg (asc ''student is not found'')))"
  by (simp add: update_std_result latin_name_update_rules enrol_unknown_rules update_student_def
      empty_db_def)

section \<open>The referential invariant under requests\<close>














section \<open>Deleting a referenced course\<close>







end
